theory Spec2Isabelle
  imports Main
begin

section \<open>OSCAL component model (blueprintapi/oscal/component.py)\<close>

text \<open>
  Strings are Python \<open>str\<close> values restricted to ASCII text, a UUID is kept in its
  canonical textual form. A Python exception is a value of \<open>error\<close>; a method that may
  raise returns \<open>error + 'a\<close> with \<open>Inl\<close> for the exception.
\<close>

type_synonym uuid = string

datatype error =
    KeyError string
  | ValueError string
  | IndexError
  | AttributeError
  | TypeError
  | ControlNotFound string
  | SchemaViolation string

datatype ComponentTypeEnum =
    software | hardware | service | interconnection | policy | process
  | procedure | plan | guidance | standard | validation

text \<open>
  Modelled from the spec: \<open>Property\<close>, \<open>Parameter\<close>, \<open>Link\<close> and \<open>ResponsibleRole\<close> are
  declared in blueprintapi/oscal/oscal.py, which is not among the sources. A property is a
  name/value pair (section 3); the methods of component.py read \<open>name\<close> and \<open>value\<close> of a
  property and \<open>param_id\<close> of a parameter. The other classes are kept to the fields that
  identify them in the OSCAL standard.
\<close>

record Property =
  prop_name :: string
  prop_value :: string

record Parameter =
  param_id :: string
  param_values :: "string list"

record Link =
  link_href :: string
  link_rel :: "string option"

record ResponsibleRole =
  role_id :: string

record Statement =
  statement_id :: string
  st_uuid :: uuid
  st_description :: string
  st_props :: "Property list option"
  st_links :: "Link list option"
  st_responsible_roles :: "ResponsibleRole list option"
  st_remarks :: "string option"

record ImplementedRequirement =
  ir_uuid :: uuid
  control_id :: string
  ir_description :: string
  ir_props :: "Property list option"
  ir_links :: "Link list option"
  set_parameters :: "Parameter list option"
  ir_responsible_roles :: "ResponsibleRole list option"
  statements :: "Statement list option"
  ir_remarks :: "string option"

record ControlImplementation =
  ci_uuid :: uuid
  ci_source :: string
  ci_description :: string
  ci_props :: "Property list option"
  ci_links :: "Link list option"
  implemented_requirements :: "ImplementedRequirement list"

text \<open>\<open>class Protocol(OSCALElement): pass\<close> has no fields.\<close>

datatype Protocol = Protocol

record Component =
  c_uuid :: uuid
  c_type :: ComponentTypeEnum
  c_title :: string
  c_description :: string
  c_purpose :: "string option"
  c_props :: "Property list option"
  c_links :: "Link list option"
  c_responsible_roles :: "ResponsibleRole list option"
  c_protocols :: "Protocol list option"
  control_implementations :: "ControlImplementation list"
  c_remarks :: "string option"

subsection \<open>Component lookups\<close>

text \<open>
  \<open>next(filter(pred, xs))\<close> yields the first element satisfying \<open>pred\<close> and raises
  \<open>StopIteration\<close> when there is none.
\<close>

fun next_filter :: "('a \<Rightarrow> bool) \<Rightarrow> 'a list \<Rightarrow> 'a option" where
  "next_filter pred [] = None"
| "next_filter pred (x # xs) = (if pred x then Some x else next_filter pred xs)"

definition apostrophe :: string where
  "apostrophe = [CHR 0x27]"

definition get_control_implementation :: "Component \<Rightarrow> string \<Rightarrow> error + ControlImplementation" where
  "get_control_implementation self catalog_version =
     (case next_filter (\<lambda>imp. ci_description imp = catalog_version) (control_implementations self) of
        Some imp \<Rightarrow> Inr imp
      | None \<Rightarrow> Inl (KeyError
          (''Provided catalog version is not in control implementations: ''
             @ apostrophe @ catalog_version @ apostrophe @ ''.'')))"

text \<open>
  \<open>controls(catalog_version=None)\<close>: \<open>not catalog_version\<close> holds for \<open>None\<close> and for
  the empty string.
\<close>

fun not_str :: "string option \<Rightarrow> bool" where
  "not_str None = True"
| "not_str (Some s) = (s = [])"

fun controls :: "Component \<Rightarrow> string option \<Rightarrow> error + ImplementedRequirement list" where
  "controls self None =
     Inr [item. implementation \<leftarrow> control_implementations self,
                item \<leftarrow> implemented_requirements implementation]"
| "controls self (Some catalog_version) =
     (if not_str (Some catalog_version)
      then Inr [item. implementation \<leftarrow> control_implementations self,
                      item \<leftarrow> implemented_requirements implementation]
      else (case get_control_implementation self catalog_version of
              Inl e \<Rightarrow> Inl e
            | Inr imp \<Rightarrow> Inr (implemented_requirements imp)))"


subsection \<open>Set-valued properties\<close>

text \<open>
  A Python \<open>set\<close> is kept as the list of its distinct elements in the order of their
  first insertion; \<open>s.add(x)\<close> leaves the set unchanged when \<open>x\<close> is already a member.
  \<open>list(s)\<close> enumerates the elements in the order of the hash table, which the
  program does not control: it is the parameter \<open>order\<close>, any function for which
  \<open>set_iteration\<close> holds.
\<close>

definition set_add :: "'a \<Rightarrow> 'a list \<Rightarrow> 'a list" where
  "set_add x s = (if x \<in> set s then s else s @ [x])"

definition set_of_items :: "'a list \<Rightarrow> 'a list" where
  "set_of_items xs = foldl (\<lambda>s x. set_add x s) [] xs"

definition set_iteration :: "('a list \<Rightarrow> 'a list) \<Rightarrow> bool" where
  "set_iteration order \<longleftrightarrow> (\<forall>s. distinct s \<longrightarrow> distinct (order s) \<and> set (order s) = set s)"

definition control_ids :: "(string list \<Rightarrow> string list) \<Rightarrow> Component \<Rightarrow> string list" where
  "control_ids order self =
     order (set_of_items [control_id item. implementation \<leftarrow> control_implementations self,
                                           item \<leftarrow> implemented_requirements implementation])"

text \<open>
  \<open>Catalog.Version\<close> is an enumeration of strings whose members are not declared in
  the catalogs/models.py at hand; \<open>version_values\<close> is the list of its values.
  \<open>Catalog.Version(s)\<close> is the member with value \<open>s\<close> and raises \<open>ValueError\<close> when
  there is none. \<open>catalog_versions\<close> catches exactly \<open>ValueError\<close>.
\<close>

definition Version :: "string list \<Rightarrow> string \<Rightarrow> error + string" where
  "Version version_values s =
     (if s \<in> set version_values then Inr s
      else Inl (ValueError (apostrophe @ s @ apostrophe @ '' is not a valid Version'')))"

fun catalog_versions_loop ::
  "string list \<Rightarrow> ControlImplementation list \<Rightarrow> string list \<Rightarrow> error + string list" where
  "catalog_versions_loop version_values [] versions = Inr versions"
| "catalog_versions_loop version_values (item # items) versions =
     (case Version version_values (ci_description item) of
        Inr v \<Rightarrow> catalog_versions_loop version_values items (set_add v versions)
      | Inl (ValueError msg) \<Rightarrow> catalog_versions_loop version_values items versions
      | Inl e \<Rightarrow> Inl e)"

definition catalog_versions ::
  "string list \<Rightarrow> (string list \<Rightarrow> string list) \<Rightarrow> Component \<Rightarrow> error + string list" where
  "catalog_versions version_values order self =
     (case catalog_versions_loop version_values (control_implementations self) [] of
        Inl e \<Rightarrow> Inl e
      | Inr versions \<Rightarrow> Inr (order versions))"

subsection \<open>Mutators of an implemented requirement\<close>

text \<open>
  \<open>key in self.statements\<close> compares the string \<open>key\<close> with each \<open>Statement\<close> of the
  list by \<open>==\<close>. A \<open>str\<close> does not compare with a model object, so Python asks the
  model, whose \<open>__eq__\<close> compares its field dictionary with the string: the answer is
  \<open>False\<close> for every string and every model.
\<close>

definition model_eq_str :: "'m \<Rightarrow> string \<Rightarrow> bool" where
  "model_eq_str m key = False"

definition key_in :: "string \<Rightarrow> 'm list \<Rightarrow> bool" where
  "key_in key ms = list_ex (\<lambda>m. model_eq_str m key) ms"

text \<open>
  The second literal of each message has no \<open>f\<close> prefix in the source, so
  \<open>{self.control_id}\<close> is part of the text.
\<close>

definition add_statement :: "ImplementedRequirement \<Rightarrow> Statement \<Rightarrow> error + ImplementedRequirement" where
  "add_statement self statement =
     (let key = statement_id statement in
      case statements self of
        None \<Rightarrow> Inr (self\<lparr>statements := Some ([] @ [statement])\<rparr>)
      | Some sts \<Rightarrow>
          if sts = [] then Inr (self\<lparr>statements := Some ([] @ [statement])\<rparr>)
          else if key_in key sts
          then Inl (KeyError (''Statement '' @ key @ '' already in ImplementedRequirement''
                              @ '' for {self.control_id}''))
          else Inr (self\<lparr>statements := Some (sts @ [statement])\<rparr>))"

definition add_parameter :: "ImplementedRequirement \<Rightarrow> Parameter \<Rightarrow> error + ImplementedRequirement" where
  "add_parameter self set_parameter =
     (let key = param_id set_parameter in
      case set_parameters self of
        None \<Rightarrow> Inr (self\<lparr>set_parameters := Some ([] @ [set_parameter])\<rparr>)
      | Some ps \<Rightarrow>
          if ps = [] then Inr (self\<lparr>set_parameters := Some ([] @ [set_parameter])\<rparr>)
          else if key_in key ps
          then Inl (KeyError (''SetParameter '' @ key @ '' already in ImplementedRequirement''
                              @ '' for {self.control_id}''))
          else Inr (self\<lparr>set_parameters := Some (ps @ [set_parameter])\<rparr>))"

definition add_property :: "ImplementedRequirement \<Rightarrow> Property \<Rightarrow> error + ImplementedRequirement" where
  "add_property self property =
     (let key = prop_name property in
      case ir_props self of
        None \<Rightarrow> Inr (self\<lparr>ir_props := Some ([] @ [property])\<rparr>)
      | Some ps \<Rightarrow>
          if ps = [] then Inr (self\<lparr>ir_props := Some ([] @ [property])\<rparr>)
          else if key_in key ps
          then Inl (KeyError (''Property '' @ key @ '' already in ImplementedRequirement''
                              @ '' for {self.control_id}''))
          else Inr (self\<lparr>ir_props := Some (ps @ [property])\<rparr>))"

section \<open>Serialization contract\<close>




definition omit_if_falsy :: "'a list option \<Rightarrow> 'a list option" where
  "omit_if_falsy xs = (case xs of None \<Rightarrow> None | Some ys \<Rightarrow> (if ys = [] then None else Some ys))"














































text \<open>
  What is left of an instance after a field marked omit-if-falsy has been written empty
  and read back absent.
\<close>

definition normal_ImplementedRequirement :: "ImplementedRequirement \<Rightarrow> ImplementedRequirement" where
  "normal_ImplementedRequirement r =
     r\<lparr>set_parameters := omit_if_falsy (set_parameters r),
       ir_responsible_roles := omit_if_falsy (ir_responsible_roles r),
       statements := omit_if_falsy (statements r)\<rparr>"

definition normal_ControlImplementation :: "ControlImplementation \<Rightarrow> ControlImplementation" where
  "normal_ControlImplementation c =
     c\<lparr>implemented_requirements := map normal_ImplementedRequirement (implemented_requirements c)\<rparr>"

definition normal :: "Component \<Rightarrow> Component" where
  "normal c = c\<lparr>control_implementations := map normal_ControlImplementation (control_implementations c)\<rparr>"

section \<open>Project snapshot and control aggregation\<close>

text \<open>
  \<open>Project\<close> and the components attached to it are rows of the persistence layer
  (projects/models.py, components/models.py). The records hold the fields that
  projects/downloads.py reads. \<open>component_json\<close> is the stored component definition,
  kept here as the OSCAL component it describes. A component with \<open>status == 1\<close> is the
  project's own system (downloads.py exports it as \<open>this-system\<close>).
\<close>

record ProjectComponent =
  pc_title :: string
  pc_type :: string
  pc_description :: string
  pc_status :: int
  pc_controls :: "string list"
  component_json :: Component

record ProjectControl =
  pctl_control_id :: string

record Project =
  p_title :: string
  p_acronym :: string
  p_impact_level :: string
  p_catalog_source :: string
  p_catalog_version :: string
  p_components :: "ProjectComponent list"
  p_controls :: "ProjectControl list"






section \<open>SSP assembly (projects/downloads.py)\<close>

subsection \<open>String operations\<close>

text \<open>
  The \<open>str\<close> methods that \<open>set_roles\<close> calls, on ASCII text. \<open>isspace\<close> holds for the
  ASCII characters that \<open>str.split()\<close> and \<open>str.strip()\<close> treat as whitespace.
\<close>

definition isspace :: "char \<Rightarrow> bool" where
  "isspace c = ((of_char c :: nat) \<in> set [9, 10, 11, 12, 13, 28, 29, 30, 31, 32])"

definition upper_case :: string where
  "upper_case = ''ABCDEFGHIJKLMNOPQRSTUVWXYZ''"

definition lower_case :: string where
  "lower_case = ''abcdefghijklmnopqrstuvwxyz''"

definition lower_char :: "char \<Rightarrow> char" where
  "lower_char c = (case map_of (zip upper_case lower_case) c of Some d \<Rightarrow> d | None \<Rightarrow> c)"

definition upper_char :: "char \<Rightarrow> char" where
  "upper_char c = (case map_of (zip lower_case upper_case) c of Some d \<Rightarrow> d | None \<Rightarrow> c)"

definition lower :: "string \<Rightarrow> string" where
  "lower s = map lower_char s"

definition upper :: "string \<Rightarrow> string" where
  "upper s = map upper_char s"

text \<open>\<open>s.replace(" ", "-")\<close>: both strings are one character long.\<close>

definition replace_space_hyphen :: "string \<Rightarrow> string" where
  "replace_space_hyphen s = map (\<lambda>c. if c = CHR '' '' then CHR ''-'' else c) s"

definition strip :: "string \<Rightarrow> string" where
  "strip s = rev (dropWhile isspace (rev (dropWhile isspace s)))"

text \<open>
  \<open>s.split()\<close>: the maximal runs of characters that are not whitespace. \<open>word\<close> is the
  run read so far.
\<close>

fun split_from :: "string \<Rightarrow> string \<Rightarrow> string list" where
  "split_from [] word = (if word = [] then [] else [word])"
| "split_from (c # cs) word =
     (if isspace c
      then (if word = [] then split_from cs [] else word # split_from cs [])
      else split_from cs (word @ [c]))"

definition split :: "string \<Rightarrow> string list" where
  "split s = split_from s []"

text \<open>\<open>[word[0] for word in words]\<close> joined; \<open>word[0]\<close> raises on an empty word.\<close>

fun first_letters :: "string list \<Rightarrow> error + string" where
  "first_letters [] = Inr []"
| "first_letters (word # words) =
     (case word of
        [] \<Rightarrow> Inl IndexError
      | c # cs \<Rightarrow> (case first_letters words of Inl e \<Rightarrow> Inl e | Inr rest \<Rightarrow> Inr (c # rest)))"

text \<open>
  \<open>s.find(sub)\<close> is the index of the first occurrence of \<open>sub\<close>, or \<open>-1\<close>.
  \<open>s[:n]\<close> counts a negative \<open>n\<close> from the end.
\<close>

fun find_at :: "string \<Rightarrow> string \<Rightarrow> int \<Rightarrow> int" where
  "find_at sub [] i = (if sub = [] then i else - 1)"
| "find_at sub (c # cs) i =
     (if take (length sub) (c # cs) = sub then i else find_at sub cs (i + 1))"

definition str_find :: "string \<Rightarrow> string \<Rightarrow> int" where
  "str_find s sub = find_at sub s 0"

definition slice_to :: "string \<Rightarrow> int \<Rightarrow> string" where
  "slice_to s n = (if n < 0 then take (nat (int (length s) + n)) s else take (nat n) s)"

text \<open>
  \<open>re.search(r"\((.*?)\)", s)\<close>: the leftmost \<open>(\<close> that is followed by a \<open>)\<close> with no
  newline in between; group 1 is the text up to the first such \<open>)\<close> (the dot does not
  match a newline, and \<open>*?\<close> takes as little as possible). \<open>group_after\<close> reads the
  group after an opening parenthesis.
\<close>

fun group_after :: "string \<Rightarrow> string option" where
  "group_after [] = None"
| "group_after (c # cs) =
     (if c = CHR '')'' then Some []
      else if c = CHR 0x0A then None
      else map_option ((#) c) (group_after cs))"

fun re_search_group :: "string \<Rightarrow> string option" where
  "re_search_group [] = None"
| "re_search_group (c # cs) =
     (if c = CHR ''(''
      then (case group_after cs of Some g \<Rightarrow> Some g | None \<Rightarrow> re_search_group cs)
      else re_search_group cs)"

subsection \<open>Roles and users\<close>

text \<open>
  \<open>extras.get("stakeholders")\<close> is a list of dictionaries, each from a title to a
  dictionary whose \<open>props\<close> holds a name and a value; a value without \<open>props\<close> makes
  \<open>value.get("props").get("name")\<close> raise \<open>AttributeError\<close>, and extras without
  stakeholders make the loop raise \<open>TypeError\<close>.
\<close>

text \<open>
  Modelled from the spec: the element classes of the plan (blueprintapi/oscal/ssp.py and
  oscal.py) are not among the sources. A record holds the fields that downloads.py passes
  to the constructor; an element whose identifier downloads.py does not pass (the plan,
  a user, a component, an implemented requirement, a by-component entry, an information
  type, a resource) carries a freshly generated UUID (section 3: identifiers are UUIDs).
  \<open>uuid4()\<close> is the next value of the generator \<open>gen\<close>, and the state counts the values
  drawn.
\<close>

record Role =
  r_title :: string
  r_short_name :: string
  r_id :: string

record User =
  u_uuid :: uuid
  u_role_ids :: "string list"
  u_title :: string
  u_short_name :: string
  u_props :: "Property option list"

record Metadata =
  md_title :: string
  md_version :: string
  md_oscal_version :: string
  md_roles :: "Role list"

type_synonym stakeholder = "(string \<times> Property option) list"

record Extras =
  stakeholders :: "stakeholder list option"

definition set_metadata :: "Project \<Rightarrow> Metadata" where
  "set_metadata project =
     \<lparr>md_title = p_title project, md_version = ''0.1'', md_oscal_version = ''1.0.2'', md_roles = []\<rparr>"

text \<open>The title and the short name that one key of a stakeholder gives.\<close>

definition title_and_short_name :: "string \<Rightarrow> error + (string \<times> string)" where
  "title_and_short_name key =
     (case re_search_group key of
        Some short \<Rightarrow> Inr (slice_to key (str_find key '' (''), short)
      | None \<Rightarrow>
          (case first_letters (split key) of
             Inl e \<Rightarrow> Inl e
           | Inr short \<Rightarrow> Inr (key, short)))"

text \<open>
  The inner loop over \<open>stakeholder.items()\<close>: the state is \<open>title\<close>, \<open>short_name\<close> and
  \<open>properties\<close>, and the last item decides.
\<close>

fun stakeholder_items ::
  "stakeholder \<Rightarrow> string \<times> string \<times> Property option \<Rightarrow> error + (string \<times> string \<times> Property option)" where
  "stakeholder_items [] st = Inr st"
| "stakeholder_items ((key, v) # items) st =
     (case title_and_short_name key of
        Inl e \<Rightarrow> Inl e
      | Inr (title, short_name) \<Rightarrow>
          (case v of
             None \<Rightarrow> Inl AttributeError
           | Some props \<Rightarrow> stakeholder_items items (title, short_name, Some props)))"

record RolesState =
  rs_roles :: "Role list"
  rs_users :: "User list"
  rs_ids :: "string list"
  rs_properties :: "Property option"
  rs_fresh :: nat

fun set_roles_loop :: "(nat \<Rightarrow> uuid) \<Rightarrow> stakeholder list \<Rightarrow> RolesState \<Rightarrow> error + RolesState" where
  "set_roles_loop gen [] st = Inr st"
| "set_roles_loop gen (stakeholder # rest) st =
     (case stakeholder_items stakeholder ([], [], rs_properties st) of
        Inl e \<Rightarrow> Inl e
      | Inr (title, short_name, properties) \<Rightarrow>
          (let role_id = lower (replace_space_hyphen title) in
           if title \<noteq> [] \<and> role_id \<notin> set (rs_ids st)
           then set_roles_loop gen rest
                  \<lparr>rs_roles = rs_roles st @
                     [\<lparr>r_title = strip title, r_short_name = upper short_name, r_id = role_id\<rparr>],
                   rs_users = rs_users st @
                     [\<lparr>u_uuid = gen (rs_fresh st), u_role_ids = [role_id], u_title = title,
                       u_short_name = short_name, u_props = [properties]\<rparr>],
                   rs_ids = rs_ids st @ [role_id],
                   rs_properties = properties,
                   rs_fresh = Suc (rs_fresh st)\<rparr>
           else set_roles_loop gen rest (st\<lparr>rs_properties := properties\<rparr>)))"

definition set_roles :: "(nat \<Rightarrow> uuid) \<Rightarrow> Extras \<Rightarrow> nat \<Rightarrow> error + RolesState" where
  "set_roles gen extras fresh =
     (case stakeholders extras of
        None \<Rightarrow> Inl TypeError
      | Some entries \<Rightarrow>
          set_roles_loop gen entries
            \<lparr>rs_roles = [], rs_users = [], rs_ids = [], rs_properties = None, rs_fresh = fresh\<rparr>)"

subsection \<open>Components and implemented requirements of the plan\<close>

record SystemStatus =
  ss_state :: string

record SspComponent =
  sc_uuid :: uuid
  sc_title :: string
  sc_type :: string
  sc_description :: string
  sc_status :: SystemStatus

record SystemImplementation =
  si_users :: "User list"
  si_components :: "SspComponent list"

record ByComponent =
  bc_uuid :: uuid
  component_uuid :: uuid
  bc_description :: string

record SspImplementedRequirement =
  sir_uuid :: uuid
  sir_control_id :: string
  by_components :: "ByComponent list option"

record SspControlImplementation =
  sci_description :: string
  sci_implemented_requirements :: "SspImplementedRequirement list"

text \<open>
  \<open>add_components\<close>: one plan component per attached component, the project's own system
  under the title \<open>This System\<close>; \<open>component_ref\<close> maps the attached component's title to
  the UUID of the plan component. \<open>SystemImplementation.add_component\<close> appends.
\<close>

record ComponentsState =
  cs_system_implementation :: SystemImplementation
  cs_component_ref :: "string \<rightharpoonup> uuid"
  cs_fresh :: nat

fun add_components_loop ::
  "(nat \<Rightarrow> uuid) \<Rightarrow> Project \<Rightarrow> ProjectComponent list \<Rightarrow> ComponentsState \<Rightarrow> ComponentsState" where
  "add_components_loop gen project [] st = st"
| "add_components_loop gen project (component # rest) st =
     (let cpt =
        (if pc_status component = 1
         then \<lparr>sc_uuid = gen (cs_fresh st), sc_title = ''This System'', sc_type = ''this-system'',
               sc_description = p_title project, sc_status = \<lparr>ss_state = ''operational''\<rparr>\<rparr>
         else \<lparr>sc_uuid = gen (cs_fresh st), sc_title = pc_title component,
               sc_type = pc_type component, sc_description = pc_description component,
               sc_status = \<lparr>ss_state = ''operational''\<rparr>\<rparr>)
      in add_components_loop gen project rest
           \<lparr>cs_system_implementation = (cs_system_implementation st)
              \<lparr>si_components := si_components (cs_system_implementation st) @ [cpt]\<rparr>,
            cs_component_ref = (cs_component_ref st)(pc_title component \<mapsto> sc_uuid cpt),
            cs_fresh = Suc (cs_fresh st)\<rparr>)"

definition add_components :: "(nat \<Rightarrow> uuid) \<Rightarrow> Project \<Rightarrow> User list \<Rightarrow> nat \<Rightarrow> ComponentsState" where
  "add_components gen project users fresh =
     add_components_loop gen project (p_components project)
       \<lparr>cs_system_implementation = \<lparr>si_users = users, si_components = []\<rparr>,
        cs_component_ref = Map.empty, cs_fresh = fresh\<rparr>"

text \<open>
  Modelled from the spec: \<open>ComponentTools.get_control_by_id\<close> (components/componentio.py,
  not among the sources) gives the implemented requirements of the stored component
  definition that carry the control id; the narrative is the description of the first.
\<close>

definition get_control_by_id :: "Component \<Rightarrow> string \<Rightarrow> ImplementedRequirement list" where
  "get_control_by_id c cid =
     filter (\<lambda>item. control_id item = cid)
       [item. implementation \<leftarrow> control_implementations c,
              item \<leftarrow> implemented_requirements implementation]"

text \<open>
  Modelled from the spec: \<open>ImplementedRequirement.add_by_component\<close> (ssp.py, not among the
  sources) attaches one more by-component entry to the requirement.
\<close>

definition add_by_component :: "SspImplementedRequirement \<Rightarrow> ByComponent \<Rightarrow> SspImplementedRequirement" where
  "add_by_component self by_component =
     self\<lparr>by_components :=
            Some ((case by_components self of None \<Rightarrow> [] | Some bcs \<Rightarrow> bcs) @ [by_component])\<rparr>"

text \<open>
  \<open>add_implemented_requirements\<close> creates one requirement object per tracked control and
  appends that object to \<open>implemented_requirements\<close> inside the loop over the components,
  after each by-component entry; the object is changed again after it has been appended.
  The objects therefore live in a store: \<open>rq_heap\<close> maps an address to the object,
  \<open>rq_refs\<close> is the list \<open>implemented_requirements\<close> as addresses, \<open>rq_next\<close> the next free
  address.
\<close>

record RequirementsState =
  rq_heap :: "nat \<Rightarrow> SspImplementedRequirement option"
  rq_refs :: "nat list"
  rq_next :: nat
  rq_fresh :: nat

fun by_component_loop ::
  "(nat \<Rightarrow> uuid) \<Rightarrow> (string \<rightharpoonup> uuid) \<Rightarrow> string \<Rightarrow> nat \<Rightarrow> ProjectComponent list
     \<Rightarrow> RequirementsState \<Rightarrow> error + RequirementsState" where
  "by_component_loop gen component_ref cid addr [] st = Inr st"
| "by_component_loop gen component_ref cid addr (component # rest) st =
     (if cid \<in> set (pc_controls component)
      then (case component_ref (pc_title component) of
              None \<Rightarrow> Inl (KeyError (pc_title component))
            | Some ref \<Rightarrow>
                (case get_control_by_id (component_json component) cid of
                   [] \<Rightarrow> Inl IndexError
                 | ctrl # others \<Rightarrow>
                     by_component_loop gen component_ref cid addr rest
                       \<lparr>rq_heap = (rq_heap st)
                          (addr := map_option
                             (\<lambda>requirement. add_by_component requirement
                                \<lparr>bc_uuid = gen (rq_fresh st), component_uuid = ref,
                                 bc_description = ir_description ctrl\<rparr>)
                             (rq_heap st addr)),
                        rq_refs = rq_refs st @ [addr],
                        rq_next = rq_next st,
                        rq_fresh = Suc (rq_fresh st)\<rparr>))
      else by_component_loop gen component_ref cid addr rest st)"

fun requirements_loop ::
  "(nat \<Rightarrow> uuid) \<Rightarrow> (string \<rightharpoonup> uuid) \<Rightarrow> ProjectComponent list \<Rightarrow> ProjectControl list
     \<Rightarrow> RequirementsState \<Rightarrow> error + RequirementsState" where
  "requirements_loop gen component_ref components [] st = Inr st"
| "requirements_loop gen component_ref components (control # rest) st =
     (case by_component_loop gen component_ref (pctl_control_id control) (rq_next st) components
             \<lparr>rq_heap = (rq_heap st)
                (rq_next st \<mapsto> \<lparr>sir_uuid = gen (rq_fresh st),
                                 sir_control_id = pctl_control_id control,
                                 by_components = None\<rparr>),
              rq_refs = rq_refs st,
              rq_next = Suc (rq_next st),
              rq_fresh = Suc (rq_fresh st)\<rparr> of
        Inl e \<Rightarrow> Inl e
      | Inr st' \<Rightarrow> requirements_loop gen component_ref components rest st')"

definition add_implemented_requirements ::
  "(nat \<Rightarrow> uuid) \<Rightarrow> Project \<Rightarrow> (string \<rightharpoonup> uuid) \<Rightarrow> nat \<Rightarrow> error + RequirementsState" where
  "add_implemented_requirements gen project component_ref fresh =
     requirements_loop gen component_ref (p_components project) (p_controls project)
       \<lparr>rq_heap = Map.empty, rq_refs = [], rq_next = 0, rq_fresh = fresh\<rparr>"

text \<open>The control implementation as it is serialised: every reference is followed.\<close>

definition control_implementations_of :: "RequirementsState \<Rightarrow> SspControlImplementation" where
  "control_implementations_of st =
     \<lparr>sci_description = ''[INSERT SYSTEM DESCRIPTION HERE]'',
      sci_implemented_requirements = List.map_filter (rq_heap st) (rq_refs st)\<rparr>"

subsection \<open>The assembled plan\<close>

record OscalSSP =
  self_project :: Project
  self_extras :: Extras
  self_metadata :: Metadata
  self_users :: "User list"
  self_component_ref :: "string \<rightharpoonup> uuid"
  self_system_implementation :: SystemImplementation
  self_control_implementations :: RequirementsState

definition OscalSSP_init :: "(nat \<Rightarrow> uuid) \<Rightarrow> Project \<Rightarrow> Extras \<Rightarrow> error + OscalSSP" where
  "OscalSSP_init gen project extras =
     (case set_roles gen extras 0 of
        Inl e \<Rightarrow> Inl e
      | Inr roles \<Rightarrow>
          (let components = add_components gen project (rs_users roles) (rs_fresh roles) in
           case add_implemented_requirements gen project (cs_component_ref components)
                  (cs_fresh components) of
             Inl e \<Rightarrow> Inl e
           | Inr requirements \<Rightarrow>
               Inr \<lparr>self_project = project, self_extras = extras,
                    self_metadata = (set_metadata project)\<lparr>md_roles := rs_roles roles\<rparr>,
                    self_users = rs_users roles,
                    self_component_ref = cs_component_ref components,
                    self_system_implementation = cs_system_implementation components,
                    self_control_implementations = requirements\<rparr>))"

record ImportProfile =
  href :: string

record SystemId =
  sid_id :: uuid
  identifier_type :: string

record Impact =
  base :: string

record InformationType =
  it_uuid :: uuid
  it_title :: string
  it_description :: string
  confidentiality_impact :: Impact
  integrity_impact :: Impact
  availability_impact :: Impact

record SystemInformation =
  information_types :: "InformationType list"

record SecurityImpactLevel =
  security_objective_confidentiality :: string
  security_objective_availability :: string
  security_objective_integrity :: string

record NetworkDiagram =
  nd_description :: string

record SystemCharacteristics =
  system_ids :: "SystemId list"
  system_name :: string
  sch_description :: string
  security_sensitivity_level :: string
  system_information :: SystemInformation
  security_impact_level :: SecurityImpactLevel
  authorization_boundary :: NetworkDiagram
  sch_status :: SystemStatus

record Resource =
  res_uuid :: uuid
  res_title :: string

record BackMatter =
  resources :: "Resource list"

record SystemSecurityPlan =
  ssp_uuid :: uuid
  ssp_metadata :: Metadata
  import_profile :: ImportProfile
  system_characteristics :: SystemCharacteristics
  system_implementation :: SystemImplementation
  control_implementation :: SspControlImplementation
  back_matter :: BackMatter

definition fips_199 :: "string \<Rightarrow> string" where
  "fips_199 impact_level = ''fips-199-'' @ impact_level"

definition get_impact_level :: "OscalSSP \<Rightarrow> SecurityImpactLevel" where
  "get_impact_level self =
     \<lparr>security_objective_confidentiality = fips_199 (p_impact_level (self_project self)),
      security_objective_availability = fips_199 (p_impact_level (self_project self)),
      security_objective_integrity = fips_199 (p_impact_level (self_project self))\<rparr>"

definition get_import_profile :: "OscalSSP \<Rightarrow> ImportProfile" where
  "get_import_profile self = \<lparr>href = p_catalog_source (self_project self)\<rparr>"

definition get_information_type :: "uuid \<Rightarrow> OscalSSP \<Rightarrow> InformationType" where
  "get_information_type fresh_uuid self =
     \<lparr>it_uuid = fresh_uuid,
      it_title = p_title (self_project self),
      it_description = p_title (self_project self),
      confidentiality_impact = \<lparr>base = fips_199 (p_impact_level (self_project self))\<rparr>,
      integrity_impact = \<lparr>base = fips_199 (p_impact_level (self_project self))\<rparr>,
      availability_impact = \<lparr>base = fips_199 (p_impact_level (self_project self))\<rparr>\<rparr>"

definition get_system_information :: "uuid \<Rightarrow> OscalSSP \<Rightarrow> SystemInformation" where
  "get_system_information fresh_uuid self =
     \<lparr>information_types = [get_information_type fresh_uuid self]\<rparr>"

text \<open>
  \<open>uuid.uuid5(namespace, name)\<close> is a hash of its arguments; it is the parameter \<open>uuid5\<close>.
\<close>

definition NAMESPACE_OID :: uuid where
  "NAMESPACE_OID = ''6ba7b812-9dad-11d1-80b4-00c04fd430c8''"

definition get_system_characteristics ::
  "(uuid \<Rightarrow> string \<Rightarrow> uuid) \<Rightarrow> uuid \<Rightarrow> OscalSSP \<Rightarrow> SystemCharacteristics" where
  "get_system_characteristics uuid5 fresh_uuid self =
     \<lparr>system_ids = [\<lparr>sid_id = uuid5 NAMESPACE_OID (p_title (self_project self)),
                      identifier_type = ''https://ietf.org/rfc/rfc4122''\<rparr>],
      system_name = p_title (self_project self),
      sch_description = p_acronym (self_project self),
      security_sensitivity_level = p_impact_level (self_project self),
      system_information = get_system_information fresh_uuid self,
      security_impact_level = get_impact_level self,
      authorization_boundary = \<lparr>nd_description = ''INSERT AUTHORIZATION BOUNDARY''\<rparr>,
      sch_status = \<lparr>ss_state = ''operational''\<rparr>\<rparr>"

definition get_back_matter :: "uuid \<Rightarrow> BackMatter" where
  "get_back_matter fresh_uuid = \<lparr>resources = [\<lparr>res_uuid = fresh_uuid, res_title = ''Test Resource''\<rparr>]\<rparr>"

text \<open>
  \<open>get_ssp\<close> builds the plan in the order of the constructor's arguments; the UUIDs it
  draws continue after those drawn by \<open>__init__\<close>. The result is the document before
  \<open>root.json(indent=2)\<close> renders it.
\<close>

definition get_ssp :: "(uuid \<Rightarrow> string \<Rightarrow> uuid) \<Rightarrow> (nat \<Rightarrow> uuid) \<Rightarrow> OscalSSP \<Rightarrow> SystemSecurityPlan" where
  "get_ssp uuid5 gen self =
     (let fresh = rq_fresh (self_control_implementations self) in
      \<lparr>ssp_uuid = gen (fresh + 2),
       ssp_metadata = self_metadata self,
       import_profile = get_import_profile self,
       system_characteristics = get_system_characteristics uuid5 (gen fresh) self,
       system_implementation = self_system_implementation self,
       control_implementation = control_implementations_of (self_control_implementations self),
       back_matter = get_back_matter (gen (fresh + 1))\<rparr>)"

text \<open>One run of the export: \<open>OscalSSP(project, extras).get_ssp()\<close>.\<close>

definition export_ssp ::
  "(uuid \<Rightarrow> string \<Rightarrow> uuid) \<Rightarrow> (nat \<Rightarrow> uuid) \<Rightarrow> Project \<Rightarrow> Extras \<Rightarrow> error + SystemSecurityPlan" where
  "export_ssp uuid5 gen project extras =
     (case OscalSSP_init gen project extras of
        Inl e \<Rightarrow> Inl e
      | Inr self \<Rightarrow> Inr (get_ssp uuid5 gen self))"

subsection \<open>The freshly generated UUIDs of a plan\<close>

text \<open>
  \<open>with_uuids f\<close> applies \<open>f\<close> to every UUID of the plan that \<open>uuid4()\<close> generated, and to
  every reference to one; the system identifier, which \<open>uuid5\<close> derives from the title,
  stays.
\<close>

definition user_uuids :: "(uuid \<Rightarrow> uuid) \<Rightarrow> User \<Rightarrow> User" where
  "user_uuids f u = u\<lparr>u_uuid := f (u_uuid u)\<rparr>"

definition component_uuids :: "(uuid \<Rightarrow> uuid) \<Rightarrow> SspComponent \<Rightarrow> SspComponent" where
  "component_uuids f c = c\<lparr>sc_uuid := f (sc_uuid c)\<rparr>"

definition by_component_uuids :: "(uuid \<Rightarrow> uuid) \<Rightarrow> ByComponent \<Rightarrow> ByComponent" where
  "by_component_uuids f b = b\<lparr>bc_uuid := f (bc_uuid b), component_uuid := f (component_uuid b)\<rparr>"

definition requirement_uuids :: "(uuid \<Rightarrow> uuid) \<Rightarrow> SspImplementedRequirement \<Rightarrow> SspImplementedRequirement" where
  "requirement_uuids f r =
     r\<lparr>sir_uuid := f (sir_uuid r),
       by_components := map_option (map (by_component_uuids f)) (by_components r)\<rparr>"

definition system_implementation_uuids :: "(uuid \<Rightarrow> uuid) \<Rightarrow> SystemImplementation \<Rightarrow> SystemImplementation" where
  "system_implementation_uuids f s =
     \<lparr>si_users = map (user_uuids f) (si_users s),
      si_components = map (component_uuids f) (si_components s)\<rparr>"

definition with_uuids :: "(uuid \<Rightarrow> uuid) \<Rightarrow> SystemSecurityPlan \<Rightarrow> SystemSecurityPlan" where
  "with_uuids f ssp =
     ssp\<lparr>ssp_uuid := f (ssp_uuid ssp),
         system_characteristics := (system_characteristics ssp)
           \<lparr>system_information :=
              \<lparr>information_types =
                 map (\<lambda>t. t\<lparr>it_uuid := f (it_uuid t)\<rparr>)
                   (information_types (system_information (system_characteristics ssp)))\<rparr>\<rparr>,
         system_implementation := system_implementation_uuids f (system_implementation ssp),
         control_implementation := (control_implementation ssp)
           \<lparr>sci_implemented_requirements :=
              map (requirement_uuids f)
                (sci_implemented_requirements (control_implementation ssp))\<rparr>,
         back_matter :=
           \<lparr>resources = map (\<lambda>r. r\<lparr>res_uuid := f (res_uuid r)\<rparr>) (resources (back_matter ssp))\<rparr>\<rparr>"

definition without_uuids :: "error + SystemSecurityPlan \<Rightarrow> error + SystemSecurityPlan" where
  "without_uuids r = (case r of Inl e \<Rightarrow> Inl e | Inr ssp \<Rightarrow> Inr (with_uuids (\<lambda>u. []) ssp))"

definition system_id_of :: "error + SystemSecurityPlan \<Rightarrow> uuid list" where
  "system_id_of r =
     (case r of Inl e \<Rightarrow> [] | Inr ssp \<Rightarrow> map sid_id (system_ids (system_characteristics ssp)))"

text \<open>The same change of UUIDs on the states of the assembly.\<close>

definition roles_uuids :: "(uuid \<Rightarrow> uuid) \<Rightarrow> RolesState \<Rightarrow> RolesState" where
  "roles_uuids f st = st\<lparr>rs_users := map (user_uuids f) (rs_users st)\<rparr>"

definition components_uuids :: "(uuid \<Rightarrow> uuid) \<Rightarrow> ComponentsState \<Rightarrow> ComponentsState" where
  "components_uuids f st =
     \<lparr>cs_system_implementation = system_implementation_uuids f (cs_system_implementation st),
      cs_component_ref = map_option f \<circ> cs_component_ref st,
      cs_fresh = cs_fresh st\<rparr>"

definition requirements_uuids :: "(uuid \<Rightarrow> uuid) \<Rightarrow> RequirementsState \<Rightarrow> RequirementsState" where
  "requirements_uuids f st = st\<lparr>rq_heap := map_option (requirement_uuids f) \<circ> rq_heap st\<rparr>"

definition self_uuids :: "(uuid \<Rightarrow> uuid) \<Rightarrow> OscalSSP \<Rightarrow> OscalSSP" where
  "self_uuids f self =
     self\<lparr>self_users := map (user_uuids f) (self_users self),
          self_component_ref := map_option f \<circ> self_component_ref self,
          self_system_implementation := system_implementation_uuids f (self_system_implementation self),
          self_control_implementations := requirements_uuids f (self_control_implementations self)\<rparr>"

section \<open>Example data\<close>

definition r5 :: string where
  "r5 = ''NIST_SP80053r5''"

definition r4 :: string where
  "r4 = ''NIST_SP80053r4''"

definition mk_requirement :: "uuid \<Rightarrow> string \<Rightarrow> string \<Rightarrow> ImplementedRequirement" where
  "mk_requirement u cid text =
     \<lparr>ir_uuid = u, control_id = cid, ir_description = text, ir_props = None, ir_links = None,
      set_parameters = None, ir_responsible_roles = None, statements = None, ir_remarks = None\<rparr>"

definition mk_implementation :: "uuid \<Rightarrow> string \<Rightarrow> ImplementedRequirement list \<Rightarrow> ControlImplementation" where
  "mk_implementation u version reqs =
     \<lparr>ci_uuid = u, ci_source = ''https://raw.githubusercontent.com/NIST/catalog.json'',
      ci_description = version, ci_props = None, ci_links = None,
      implemented_requirements = reqs\<rparr>"

definition mk_component :: "uuid \<Rightarrow> string \<Rightarrow> ControlImplementation list \<Rightarrow> Component" where
  "mk_component u name impls =
     \<lparr>c_uuid = u, c_type = software, c_title = name, c_description = name, c_purpose = None,
      c_props = None, c_links = None, c_responsible_roles = None, c_protocols = None,
      control_implementations = impls, c_remarks = None\<rparr>"

definition req_ac2 :: ImplementedRequirement where
  "req_ac2 = mk_requirement ''6698d762'' ''ac-2'' ''This component satisfies a.''"

definition req_at1 :: ImplementedRequirement where
  "req_at1 = mk_requirement ''73dd3c2e'' ''at-1'' ''This component satisfies b.''"

definition req_ac2_old :: ImplementedRequirement where
  "req_ac2_old = mk_requirement ''0a1b2c3d'' ''ac-2'' ''Rev 4 narrative for a.''"

definition impl_r5 :: ControlImplementation where
  "impl_r5 = mk_implementation ''f94a7f03'' r5 [req_ac2, req_at1]"

definition impl_r5_second :: ControlImplementation where
  "impl_r5_second = mk_implementation ''11111111'' r5 [req_at1]"

definition impl_r4 :: ControlImplementation where
  "impl_r4 = mk_implementation ''22222222'' r4 [req_ac2_old]"

definition cool_component :: Component where
  "cool_component = mk_component ''e35accd9'' ''Cool Component'' [impl_r4, impl_r5, impl_r5_second]"

definition stmt_a :: Statement where
  "stmt_a = \<lparr>statement_id = ''ac-2_smt.a'', st_uuid = ''aaaa0001'', st_description = ''first'',
             st_props = None, st_links = None, st_responsible_roles = None, st_remarks = None\<rparr>"

definition stmt_a_again :: Statement where
  "stmt_a_again = \<lparr>statement_id = ''ac-2_smt.a'', st_uuid = ''aaaa0002'', st_description = ''second'',
             st_props = None, st_links = None, st_responsible_roles = None, st_remarks = None\<rparr>"

definition impl_custom :: ControlImplementation where
  "impl_custom = mk_implementation ''33333333'' ''custom-baseline'' [req_at1]"

definition custom_component :: Component where
  "custom_component = mk_component ''44444444'' ''Custom Component'' [impl_custom, impl_custom]"

definition req_with_a :: ImplementedRequirement where
  "req_with_a = req_ac2\<lparr>ir_props := Some [\<lparr>prop_name = ''provider'', prop_value = ''yes''\<rparr>],
                        set_parameters := Some [\<lparr>param_id = ''ac-2_prm_1'', param_values = [''30 days'']\<rparr>],
                        statements := Some [stmt_a]\<rparr>"

definition attached :: "string \<Rightarrow> int \<Rightarrow> string list \<Rightarrow> Component \<Rightarrow> ProjectComponent" where
  "attached name st cids c =
     \<lparr>pc_title = name, pc_type = ''software'', pc_description = name @ '' description'',
      pc_status = st, pc_controls = cids, component_json = c\<rparr>"

definition comp_A :: ProjectComponent where
  "comp_A = attached ''A'' 2 [''ac-2'', ''at-1''] (mk_component ''aaaaaaaa'' ''A'' [impl_r5])"

definition comp_B :: ProjectComponent where
  "comp_B = attached ''B'' 2 [''at-1''] (mk_component ''bbbbbbbb'' ''B'' [impl_r5_second])"

definition comp_C :: ProjectComponent where
  "comp_C = attached ''C'' 2 [''ac-2''] (mk_component ''cccccccc'' ''C'' [impl_r4, impl_r5])"

definition comp_own :: ProjectComponent where
  "comp_own = attached ''Pretty Ordinary Project private'' 1 [] (mk_component ''dddddddd'' ''own'' [])"

definition pop_project :: "ProjectComponent list \<Rightarrow> string list \<Rightarrow> Project" where
  "pop_project cs cids =
     \<lparr>p_title = ''Pretty Ordinary Project'', p_acronym = ''POP'', p_impact_level = ''low'',
      p_catalog_source = ''https://raw.githubusercontent.com/NIST/catalog.json'',
      p_catalog_version = r5, p_components = cs,
      p_controls = map (\<lambda>cid. \<lparr>pctl_control_id = cid\<rparr>) cids\<rparr>"


definition owner_props :: Property where
  "owner_props = \<lparr>prop_name = ''type'', prop_value = ''internal''\<rparr>"

definition count_uuid :: "nat \<Rightarrow> uuid" where
  "count_uuid n = replicate (Suc n) (CHR ''a'')"

definition other_uuid :: "nat \<Rightarrow> uuid" where
  "other_uuid n = replicate (Suc n) (CHR ''b'')"


definition no_stakeholders :: Extras where
  "no_stakeholders = \<lparr>stakeholders = Some []\<rparr>"

definition requirements_of :: "error + OscalSSP \<Rightarrow> (string \<times> string list) list" where
  "requirements_of r =
     (case r of
        Inl e \<Rightarrow> []
      | Inr self \<Rightarrow>
          map (\<lambda>requirement. (sir_control_id requirement,
                 map bc_description (case by_components requirement of None \<Rightarrow> [] | Some bcs \<Rightarrow> bcs)))
            (sci_implemented_requirements (control_implementations_of (self_control_implementations self))))"

definition one_stakeholder :: Extras where
  "one_stakeholder = \<lparr>stakeholders = Some [[(''Information System Owner (iso)'', Some owner_props)]]\<rparr>"

definition name_uuid5 :: "uuid \<Rightarrow> string \<Rightarrow> uuid" where
  "name_uuid5 namespace name = namespace @ '':'' @ name"

definition plan_uuid_of :: "error + SystemSecurityPlan \<Rightarrow> uuid" where
  "plan_uuid_of r = (case r of Inl e \<Rightarrow> [] | Inr ssp \<Rightarrow> ssp_uuid ssp)"



section \<open>Properties of the component lookups\<close>

lemma next_filter_None: "next_filter pred xs = None \<longleftrightarrow> (\<forall>x \<in> set xs. \<not> pred x)"
  by (induction xs) auto

lemma next_filter_Some:
  "next_filter pred xs = Some y \<longleftrightarrow>
     (\<exists>pre post. xs = pre @ y # post \<and> pred y \<and> (\<forall>x \<in> set pre. \<not> pred x))"
proof (induction xs)
  case Nil
  show ?case by simp
next
  case (Cons x xs)
  show ?case
  proof (cases "pred x")
    case True
    have "(\<exists>pre post. x # xs = pre @ y # post \<and> pred y \<and> (\<forall>z \<in> set pre. \<not> pred z)) \<longleftrightarrow> x = y"
    proof
      assume "\<exists>pre post. x # xs = pre @ y # post \<and> pred y \<and> (\<forall>z \<in> set pre. \<not> pred z)"
      then obtain pre post where h: "x # xs = pre @ y # post" "\<forall>z \<in> set pre. \<not> pred z"
        by blast
      show "x = y"
      proof (cases pre)
        case Nil
        with h show ?thesis by simp
      next
        case (Cons p ps)
        with h True show ?thesis by auto
      qed
    next
      assume "x = y"
      with True have "x # xs = [] @ y # xs \<and> pred y \<and> (\<forall>z \<in> set []. \<not> pred z)" by simp
      then show "\<exists>pre post. x # xs = pre @ y # post \<and> pred y \<and> (\<forall>z \<in> set pre. \<not> pred z)"
        by blast
    qed
    with True show ?thesis by auto
  next
    case False
    have "(\<exists>pre post. x # xs = pre @ y # post \<and> pred y \<and> (\<forall>z \<in> set pre. \<not> pred z)) \<longleftrightarrow>
          (\<exists>pre post. xs = pre @ y # post \<and> pred y \<and> (\<forall>z \<in> set pre. \<not> pred z))"
    proof
      assume "\<exists>pre post. x # xs = pre @ y # post \<and> pred y \<and> (\<forall>z \<in> set pre. \<not> pred z)"
      then obtain pre post where h: "x # xs = pre @ y # post" "pred y" "\<forall>z \<in> set pre. \<not> pred z"
        by blast
      show "\<exists>pre post. xs = pre @ y # post \<and> pred y \<and> (\<forall>z \<in> set pre. \<not> pred z)"
      proof (cases pre)
        case Nil
        with h False show ?thesis by simp
      next
        case (Cons p ps)
        with h have "xs = ps @ y # post \<and> pred y \<and> (\<forall>z \<in> set ps. \<not> pred z)" by simp
        then show ?thesis by blast
      qed
    next
      assume "\<exists>pre post. xs = pre @ y # post \<and> pred y \<and> (\<forall>z \<in> set pre. \<not> pred z)"
      then obtain pre post where h: "xs = pre @ y # post" "pred y" "\<forall>z \<in> set pre. \<not> pred z"
        by blast
      with False have "x # xs = (x # pre) @ y # post \<and> pred y \<and> (\<forall>z \<in> set (x # pre). \<not> pred z)"
        by simp
      then show "\<exists>pre post. x # xs = pre @ y # post \<and> pred y \<and> (\<forall>z \<in> set pre. \<not> pred z)"
        by blast
    qed
    with False Cons.IH show ?thesis by simp
  qed
qed


text \<open>
  C4. \<open>get_control_implementation(v)\<close> returns the first control implementation, in
  list order, whose description equals \<open>v\<close>: every implementation before it carries
  another description, so with several implementations tagged \<open>v\<close> the first one is
  returned and nothing is raised. When no implementation's description equals \<open>v\<close> the
  call raises the \<open>KeyError\<close> that reports the missing catalog version.
\<close>

theorem get_control_implementation_first_match:
  "(\<forall>imp. get_control_implementation c v = Inr imp \<longleftrightarrow>
      (\<exists>pre post. control_implementations c = pre @ imp # post \<and> ci_description imp = v
          \<and> (\<forall>x \<in> set pre. ci_description x \<noteq> v)))
   \<and> ((\<exists>x \<in> set (control_implementations c). ci_description x = v)
        \<longrightarrow> (\<exists>imp. get_control_implementation c v = Inr imp))
   \<and> ((\<forall>x \<in> set (control_implementations c). ci_description x \<noteq> v)
        \<longrightarrow> get_control_implementation c v = Inl (KeyError
              (''Provided catalog version is not in control implementations: ''
                 @ apostrophe @ v @ apostrophe @ ''.'')))"
proof (intro conjI allI impI)
  fix imp
  show "get_control_implementation c v = Inr imp \<longleftrightarrow>
      (\<exists>pre post. control_implementations c = pre @ imp # post \<and> ci_description imp = v
          \<and> (\<forall>x \<in> set pre. ci_description x \<noteq> v))"
  proof (cases "next_filter (\<lambda>imp. ci_description imp = v) (control_implementations c)")
    case None
    then have "\<forall>x \<in> set (control_implementations c). ci_description x \<noteq> v"
      by (simp add: next_filter_None)
    with None show ?thesis
      by (auto simp: get_control_implementation_def)
  next
    case (Some y)
    have "y = imp \<longleftrightarrow> next_filter (\<lambda>imp. ci_description imp = v) (control_implementations c) = Some imp"
      using Some by auto
    then show ?thesis
      using Some next_filter_Some [of "\<lambda>imp. ci_description imp = v" "control_implementations c" imp]
      by (simp add: get_control_implementation_def)
  qed
next
  assume "\<exists>x \<in> set (control_implementations c). ci_description x = v"
  then have "next_filter (\<lambda>imp. ci_description imp = v) (control_implementations c) \<noteq> None"
    by (simp add: next_filter_None)
  then show "\<exists>imp. get_control_implementation c v = Inr imp"
    by (auto simp: get_control_implementation_def)
next
  assume "\<forall>x \<in> set (control_implementations c). ci_description x \<noteq> v"
  then have "next_filter (\<lambda>imp. ci_description imp = v) (control_implementations c) = None"
    by (simp add: next_filter_None)
  then show "get_control_implementation c v = Inl (KeyError
              (''Provided catalog version is not in control implementations: ''
                 @ apostrophe @ v @ apostrophe @ ''.''))"
    by (simp add: get_control_implementation_def)
qed

lemmas example_defs = r5_def r4_def mk_requirement_def mk_implementation_def mk_component_def
  req_ac2_def req_at1_def req_ac2_old_def impl_r5_def impl_r5_second_def impl_r4_def
  cool_component_def

text \<open>
  Witness for C4: a component with a Rev 4 implementation followed by two Rev 5
  implementations answers with the first Rev 5 one; a tag that no implementation carries
  raises.
\<close>

theorem get_control_implementation_first_match_witness:
  "get_control_implementation cool_component r5 = Inr impl_r5
   \<and> control_implementations cool_component = [impl_r4] @ impl_r5 # [impl_r5_second]
   \<and> ci_description impl_r5_second = r5
   \<and> list_all (\<lambda>x. ci_description x \<noteq> ''NIST_SP80053r3'') (control_implementations cool_component)
   \<and> get_control_implementation cool_component ''NIST_SP80053r3'' = Inl (KeyError
              (''Provided catalog version is not in control implementations: ''
                 @ apostrophe @ ''NIST_SP80053r3'' @ apostrophe @ ''.''))"
proof -
  have split: "control_implementations cool_component = [impl_r4] @ impl_r5 # [impl_r5_second]"
    by (simp add: cool_component_def mk_component_def)
  have tag: "ci_description impl_r5 = r5" "ci_description impl_r5_second = r5"
    by (simp_all add: impl_r5_def impl_r5_second_def mk_implementation_def)
  have before: "\<forall>x \<in> set [impl_r4]. ci_description x \<noteq> r5"
    by (simp add: impl_r4_def mk_implementation_def r4_def r5_def)
  have first: "get_control_implementation cool_component r5 = Inr impl_r5"
    using get_control_implementation_first_match [of cool_component r5] split tag before
    by blast
  have none: "\<forall>x \<in> set (control_implementations cool_component). ci_description x \<noteq> ''NIST_SP80053r3''"
    by (simp add: example_defs)
  have miss: "get_control_implementation cool_component ''NIST_SP80053r3'' = Inl (KeyError
              (''Provided catalog version is not in control implementations: ''
                 @ apostrophe @ ''NIST_SP80053r3'' @ apostrophe @ ''.''))"
    using get_control_implementation_first_match [of cool_component "''NIST_SP80053r3''"] none
    by blast
  from first split tag none miss show ?thesis by (simp add: list_all_iff)
qed

lemma controls_flatten:
  "not_str v \<Longrightarrow> controls c v = Inr (concat (map implemented_requirements (control_implementations c)))"
  by (cases v) simp_all

text \<open>
  C5. \<open>controls()\<close> without a catalog version (\<open>None\<close>, or the empty string, which
  \<open>not catalog_version\<close> treats alike) returns the concatenation of the
  \<open>implemented_requirements\<close> lists of all control implementations, implementations in
  list order and requirements in their order inside each, duplicates included. With a
  version it returns the \<open>implemented_requirements\<close> of the implementation that
  \<open>get_control_implementation\<close> selects, and raises when there is none.
\<close>

theorem controls_concat_or_version:
  "controls c None = Inr (concat (map implemented_requirements (control_implementations c)))
   \<and> controls c (Some []) = Inr (concat (map implemented_requirements (control_implementations c)))
   \<and> (\<forall>v pre imp post. v \<noteq> [] \<and> control_implementations c = pre @ imp # post
          \<and> ci_description imp = v \<and> (\<forall>x \<in> set pre. ci_description x \<noteq> v)
        \<longrightarrow> controls c (Some v) = Inr (implemented_requirements imp))
   \<and> (\<forall>v. v \<noteq> [] \<and> (\<forall>x \<in> set (control_implementations c). ci_description x \<noteq> v)
        \<longrightarrow> (\<exists>e. controls c (Some v) = Inl e))"
proof (intro conjI allI impI)
  show "controls c None = Inr (concat (map implemented_requirements (control_implementations c)))"
    by simp
  show "controls c (Some []) = Inr (concat (map implemented_requirements (control_implementations c)))"
    by simp
next
  fix v pre imp post
  assume h: "v \<noteq> [] \<and> control_implementations c = pre @ imp # post
          \<and> ci_description imp = v \<and> (\<forall>x \<in> set pre. ci_description x \<noteq> v)"
  then have "next_filter (\<lambda>i. ci_description i = v) (control_implementations c) = Some imp"
    unfolding next_filter_Some by blast
  with h show "controls c (Some v) = Inr (implemented_requirements imp)"
    by (simp add: get_control_implementation_def)
next
  fix v
  assume h: "v \<noteq> [] \<and> (\<forall>x \<in> set (control_implementations c). ci_description x \<noteq> v)"
  then have "next_filter (\<lambda>i. ci_description i = v) (control_implementations c) = None"
    by (simp add: next_filter_None)
  with h show "\<exists>e. controls c (Some v) = Inl e"
    by (simp add: get_control_implementation_def)
qed

text \<open>Witness for C5 on the example component.\<close>

theorem controls_concat_or_version_witness:
  "controls cool_component None = Inr [req_ac2_old, req_ac2, req_at1, req_at1]
   \<and> r5 \<noteq> [] \<and> control_implementations cool_component = [impl_r4] @ impl_r5 # [impl_r5_second]
   \<and> ci_description impl_r5 = r5 \<and> list_all (\<lambda>x. ci_description x \<noteq> r5) [impl_r4]
   \<and> controls cool_component (Some r5) = Inr [req_ac2, req_at1]
   \<and> list_all (\<lambda>x. ci_description x \<noteq> ''NIST_SP80053r3'') (control_implementations cool_component)
   \<and> (\<exists>e. controls cool_component (Some ''NIST_SP80053r3'') = Inl e)"
proof -
  have split: "control_implementations cool_component = [impl_r4] @ impl_r5 # [impl_r5_second]"
    by (simp add: cool_component_def mk_component_def)
  have tag: "ci_description impl_r5 = r5" "r5 \<noteq> []"
    by (simp_all add: impl_r5_def mk_implementation_def r5_def)
  have before: "\<forall>x \<in> set [impl_r4]. ci_description x \<noteq> r5"
    by (simp add: impl_r4_def mk_implementation_def r4_def r5_def)
  have none: "\<forall>x \<in> set (control_implementations cool_component). ci_description x \<noteq> ''NIST_SP80053r3''"
    by (simp add: example_defs)
  note inst = controls_concat_or_version [of cool_component]
  have all: "controls cool_component None = Inr [req_ac2_old, req_ac2, req_at1, req_at1]"
    using inst by (simp add: cool_component_def mk_component_def impl_r4_def impl_r5_def impl_r5_second_def mk_implementation_def)
  have one: "controls cool_component (Some r5) = Inr (implemented_requirements impl_r5)"
    using inst split tag before by blast
  have miss: "\<exists>e. controls cool_component (Some ''NIST_SP80053r3'') = Inl e"
    using inst none by blast
  have "implemented_requirements impl_r5 = [req_ac2, req_at1]"
    by (simp add: impl_r5_def mk_implementation_def)
  with all one miss split tag before none show ?thesis by (simp add: list_all_iff)
qed

lemma set_add_distinct: "distinct s \<Longrightarrow> distinct (set_add x s)"
  by (simp add: set_add_def)

lemma set_add_set: "set (set_add x s) = insert x (set s)"
  by (auto simp: set_add_def)

lemma foldl_set_add:
  "distinct s \<Longrightarrow> distinct (foldl (\<lambda>s x. set_add x s) s xs)
     \<and> set (foldl (\<lambda>s x. set_add x s) s xs) = set s \<union> set xs"
proof (induction xs arbitrary: s)
  case Nil
  then show ?case by simp
next
  case (Cons x xs)
  from Cons.prems have "distinct (set_add x s)" by (rule set_add_distinct)
  from Cons.IH [OF this] show ?case by (auto simp: set_add_set)
qed

lemma set_of_items_props: "distinct (set_of_items xs) \<and> set (set_of_items xs) = set xs"
  using foldl_set_add [of "[]" xs] by (simp add: set_of_items_def)

lemma set_iteration_rev: "set_iteration order \<Longrightarrow> set_iteration (\<lambda>s. rev (order s))"
  by (simp add: set_iteration_def)

lemma rev_neq_self:
  assumes "distinct xs" "2 \<le> length xs"
  shows "rev xs \<noteq> xs"
proof
  assume eq: "rev xs = xs"
  from assms(2) have ne: "xs \<noteq> []" by auto
  have "hd (rev xs) = last xs" using ne by (simp add: hd_rev)
  with eq have "hd xs = last xs" by simp
  moreover have "hd xs = xs ! 0" using ne by (simp add: hd_conv_nth)
  moreover have "last xs = xs ! (length xs - 1)" using ne by (simp add: last_conv_nth)
  ultimately have "xs ! 0 = xs ! (length xs - 1)" by simp
  moreover have "0 < length xs" "length xs - 1 < length xs" "0 \<noteq> length xs - 1"
    using assms(2) by auto
  ultimately show False
    using assms(1) nth_eq_iff_index_eq [of xs 0 "length xs - 1"] by simp
qed

text \<open>
  C9. For every order in which the hash table may enumerate a set, \<open>control_ids\<close>
  lists every control id that occurs in some implemented requirement of some control
  implementation of the component, and lists it once, also when several implementations
  carry it (where \<open>controls()\<close> repeats it). The order of the list is not fixed by the
  program: whenever the list has two or more elements another admissible enumeration
  gives a different list.
\<close>

theorem control_ids_each_once:
  assumes "set_iteration order"
  shows "distinct (control_ids order c)
    \<and> set (control_ids order c)
        = {control_id item | implementation item.
             implementation \<in> set (control_implementations c)
             \<and> item \<in> set (implemented_requirements implementation)}
    \<and> (2 \<le> length (control_ids order c) \<longrightarrow>
         (\<exists>order'. set_iteration order' \<and> control_ids order' c \<noteq> control_ids order c))"
proof -
  let ?ids = "[control_id item. implementation \<leftarrow> control_implementations c,
                                 item \<leftarrow> implemented_requirements implementation]"
  have d: "distinct (set_of_items ?ids)" and s: "set (set_of_items ?ids) = set ?ids"
    using set_of_items_props [of ?ids] by simp_all
  from assms d have o: "distinct (order (set_of_items ?ids))"
    "set (order (set_of_items ?ids)) = set (set_of_items ?ids)"
    by (simp_all add: set_iteration_def)
  have ids: "set ?ids = {control_id item | implementation item.
             implementation \<in> set (control_implementations c)
             \<and> item \<in> set (implemented_requirements implementation)}"
    by auto
  have other: "\<exists>order'. set_iteration order' \<and> control_ids order' c \<noteq> control_ids order c"
    if "2 \<le> length (control_ids order c)"
  proof -
    have "rev (control_ids order c) \<noteq> control_ids order c"
      using o(1) that by (intro rev_neq_self) (simp_all add: control_ids_def)
    then have "control_ids (\<lambda>s. rev (order s)) c \<noteq> control_ids order c"
      by (simp add: control_ids_def)
    with set_iteration_rev [OF assms] show ?thesis by blast
  qed
  from o s ids other show ?thesis
    by (simp add: control_ids_def)
qed

lemma catalog_versions_loop_props:
  "distinct acc \<Longrightarrow>
   \<exists>vs. catalog_versions_loop vals items acc = Inr vs \<and> distinct vs
      \<and> set vs = set acc \<union> {d \<in> ci_description ` set items. d \<in> set vals}"
proof (induction items arbitrary: acc)
  case Nil
  then show ?case by simp
next
  case (Cons item items)
  show ?case
  proof (cases "ci_description item \<in> set vals")
    case True
    from Cons.prems have "distinct (set_add (ci_description item) acc)"
      by (rule set_add_distinct)
    from Cons.IH [OF this] True show ?thesis
      by (auto simp: Version_def set_add_set)
  next
    case False
    from Cons.IH [OF Cons.prems] False show ?thesis
      by (auto simp: Version_def)
  qed
qed

text \<open>
  C10. \<open>catalog_versions\<close> never raises: it returns a list without duplicates that
  holds exactly the descriptions of the control implementations that are values of
  \<open>Catalog.Version\<close>; implementations with any other description are skipped, and
  when all of them are, the result is the empty list.
\<close>

theorem catalog_versions_skips_unrecognised:
  assumes "set_iteration order"
  shows "\<exists>vs. catalog_versions version_values order c = Inr vs
      \<and> distinct vs
      \<and> set vs = {d \<in> ci_description ` set (control_implementations c). d \<in> set version_values}
      \<and> ((\<forall>item \<in> set (control_implementations c). ci_description item \<notin> set version_values)
           \<longrightarrow> vs = [])"
proof -
  obtain ws where ws: "catalog_versions_loop version_values (control_implementations c) [] = Inr ws"
    "distinct ws"
    "set ws = {d \<in> ci_description ` set (control_implementations c). d \<in> set version_values}"
    using catalog_versions_loop_props [of "[]" version_values "control_implementations c"] by auto
  from assms ws(2) have o: "distinct (order ws)" "set (order ws) = set ws"
    by (simp_all add: set_iteration_def)
  have "order ws = []"
    if "\<forall>item \<in> set (control_implementations c). ci_description item \<notin> set version_values"
  proof -
    from that ws(3) have "set ws = {}" by auto
    with o(2) show ?thesis by simp
  qed
  with ws o show ?thesis
    by (simp add: catalog_versions_def)
qed

text \<open>
  Witness for C9: with reversed insertion order as enumeration, the example component,
  whose three implementations mention \<open>ac-2\<close> twice and \<open>at-1\<close> twice, has two control ids.
\<close>

theorem control_ids_each_once_witness:
  "set_iteration (rev :: string list \<Rightarrow> string list)
   \<and> control_ids rev cool_component = [''at-1'', ''ac-2'']
   \<and> distinct (control_ids rev cool_component)
   \<and> 2 \<le> length (control_ids rev cool_component)
   \<and> (\<exists>order'. set_iteration order' \<and> control_ids order' cool_component \<noteq> control_ids rev cool_component)"
proof -
  have ord: "set_iteration (rev :: string list \<Rightarrow> string list)"
    by (simp add: set_iteration_def)
  have val: "control_ids rev cool_component = [''at-1'', ''ac-2'']"
    by (simp add: control_ids_def set_of_items_def set_add_def example_defs)
  then have len: "2 \<le> length (control_ids rev cool_component)" by simp
  from control_ids_each_once [OF ord, of cool_component] len
  have "distinct (control_ids rev cool_component)
     \<and> (\<exists>order'. set_iteration order' \<and> control_ids order' cool_component \<noteq> control_ids rev cool_component)"
    by blast
  with ord val len show ?thesis by blast
qed

text \<open>
  Witness for C10: the example component supports both revisions; a component whose
  implementations are all tagged \<open>custom-baseline\<close> supports none.
\<close>

theorem catalog_versions_skips_unrecognised_witness:
  "set_iteration (rev :: string list \<Rightarrow> string list)
   \<and> catalog_versions [r4, r5] rev cool_component = Inr [r5, r4]
   \<and> list_all (\<lambda>item. ci_description item \<notin> set [r4, r5]) (control_implementations custom_component)
   \<and> catalog_versions [r4, r5] rev custom_component = Inr []"
proof -
  have ord: "set_iteration (rev :: string list \<Rightarrow> string list)"
    by (simp add: set_iteration_def)
  have val: "catalog_versions [r4, r5] rev cool_component = Inr [r5, r4]"
    by (simp add: catalog_versions_def Version_def set_add_def example_defs)
  have none: "\<forall>item \<in> set (control_implementations custom_component). ci_description item \<notin> set [r4, r5]"
    by (simp add: custom_component_def impl_custom_def mk_component_def mk_implementation_def r4_def r5_def)
  from catalog_versions_skips_unrecognised [OF ord, of "[r4, r5]" custom_component] none
  have "catalog_versions [r4, r5] rev custom_component = Inr []"
    by blast
  with ord val none show ?thesis by (simp add: list_all_iff)
qed

text \<open>
  C2. The claim asks that a second statement with a \<open>statement_id\<close> already attached be
  refused, and likewise a second parameter with the same \<open>param_id\<close> and a second
  property with the same name. The membership tests of the three mutators compare the
  key with the attached objects, never with their keys, so on a requirement that holds
  statement \<open>ac-2_smt.a\<close>, parameter \<open>ac-2_prm_1\<close> and property \<open>provider\<close> each
  duplicate is appended and no error is raised.
\<close>

theorem add_statement_duplicate_accepted:
  "statement_id stmt_a_again = statement_id stmt_a
   \<and> statements req_with_a = Some [stmt_a]
   \<and> add_statement req_with_a stmt_a_again
       = Inr (req_with_a\<lparr>statements := Some [stmt_a, stmt_a_again]\<rparr>)
   \<and> add_parameter req_with_a \<lparr>param_id = ''ac-2_prm_1'', param_values = [''60 days'']\<rparr>
       = Inr (req_with_a\<lparr>set_parameters :=
               Some [\<lparr>param_id = ''ac-2_prm_1'', param_values = [''30 days'']\<rparr>,
                     \<lparr>param_id = ''ac-2_prm_1'', param_values = [''60 days'']\<rparr>]\<rparr>)
   \<and> add_property req_with_a \<lparr>prop_name = ''provider'', prop_value = ''no''\<rparr>
       = Inr (req_with_a\<lparr>ir_props :=
               Some [\<lparr>prop_name = ''provider'', prop_value = ''yes''\<rparr>,
                     \<lparr>prop_name = ''provider'', prop_value = ''no''\<rparr>]\<rparr>)"
  by (simp add: add_statement_def add_parameter_def add_property_def key_in_def model_eq_str_def
        req_with_a_def stmt_a_def stmt_a_again_def)

text \<open>\<open>add_statement\<close> appends whatever the requirement already holds.\<close>

lemma add_statement_never_raises:
  "add_statement self st =
     Inr (self\<lparr>statements := Some ((case statements self of None \<Rightarrow> [] | Some sts \<Rightarrow> sts) @ [st])\<rparr>)"
  by (simp add: add_statement_def key_in_def model_eq_str_def Let_def list_ex_iff split: option.splits)







subsection \<open>Role derivation\<close>










text \<open>The stakeholders are handled one after the other, each from the state the last left.\<close>

lemma set_roles_loop_append:
  "set_roles_loop gen (xs @ ys) st =
     (case set_roles_loop gen xs st of Inl e \<Rightarrow> Inl e | Inr st' \<Rightarrow> set_roles_loop gen ys st')"
proof (induction xs arbitrary: st)
  case Nil
  show ?case by simp
next
  case (Cons x xs)
  show ?case
    by (cases "stakeholder_items x ([], [], rs_properties st)")
       (auto simp: Let_def Cons.IH split: prod.splits)
qed





subsection \<open>Implemented requirements of the plan\<close>

text \<open>
  The inner loop appends the address of the control's requirement once for every
  component whose \<open>controls\<close> hold the control id, so the plan has as many requirement
  entries as there are pairs of a tracked control and a component implementing it.
\<close>

lemma by_component_loop_refs:
  "by_component_loop gen component_ref cid addr cs st = Inr st' \<Longrightarrow>
     rq_refs st' = rq_refs st @ replicate (length (filter (\<lambda>c. cid \<in> set (pc_controls c)) cs)) addr"
proof (induction cs arbitrary: st)
  case Nil
  then show ?case by simp
next
  case (Cons c cs)
  show ?case
  proof (cases "cid \<in> set (pc_controls c)")
    case False
    with Cons show ?thesis by simp
  next
    case True
    from Cons.prems True obtain ref ctrl others where
      r: "component_ref (pc_title c) = Some ref"
      and g: "get_control_by_id (component_json c) cid = ctrl # others"
      by (auto split: option.splits list.splits)
    let ?st = "\<lparr>rq_heap = (rq_heap st)
                          (addr := map_option
                             (\<lambda>requirement. add_by_component requirement
                                \<lparr>bc_uuid = gen (rq_fresh st), component_uuid = ref,
                                 bc_description = ir_description ctrl\<rparr>)
                             (rq_heap st addr)),
                        rq_refs = rq_refs st @ [addr],
                        rq_next = rq_next st,
                        rq_fresh = Suc (rq_fresh st)\<rparr>"
    from Cons.prems True r g have "by_component_loop gen component_ref cid addr cs ?st = Inr st'"
      by simp
    from Cons.IH [OF this] True show ?thesis
      by (simp add: replicate_app_Cons_same)
  qed
qed

lemma requirements_loop_count:
  "requirements_loop gen component_ref cs ctls st = Inr st' \<Longrightarrow>
     length (rq_refs st') = length (rq_refs st)
       + sum_list (map (\<lambda>control. length (filter (\<lambda>c. pctl_control_id control \<in> set (pc_controls c)) cs)) ctls)"
proof (induction ctls arbitrary: st)
  case Nil
  then show ?case by simp
next
  case (Cons control ctls)
  let ?new = "\<lparr>rq_heap = (rq_heap st)
                (rq_next st \<mapsto> \<lparr>sir_uuid = gen (rq_fresh st),
                                 sir_control_id = pctl_control_id control,
                                 by_components = None\<rparr>),
              rq_refs = rq_refs st,
              rq_next = Suc (rq_next st),
              rq_fresh = Suc (rq_fresh st)\<rparr>"
  from Cons.prems obtain mid where
    m: "by_component_loop gen component_ref (pctl_control_id control) (rq_next st) cs ?new = Inr mid"
    and r: "requirements_loop gen component_ref cs ctls mid = Inr st'"
    by (auto split: sum.splits)
  from by_component_loop_refs [OF m]
  have "length (rq_refs mid) = length (rq_refs st)
          + length (filter (\<lambda>c. pctl_control_id control \<in> set (pc_controls c)) cs)"
    by simp
  with Cons.IH [OF r] show ?case by simp
qed

text \<open>
  C1. The claim asks for exactly one implemented requirement per tracked control.
  \<open>add_implemented_requirements\<close> appends the requirement inside the loop over the
  components, once per component that implements the control. With the tracked control
  \<open>ac-2\<close> and two attached components that both implement it, the plan holds the
  requirement for \<open>ac-2\<close> twice (each copy with both by-component entries). With the tracked
  controls \<open>ac-3\<close>, which no attached component implements, and \<open>ac-2\<close>, which one of two
  implements, the plan holds no requirement for \<open>ac-3\<close> and one for \<open>ac-2\<close> with one
  by-component entry, whose text is that component's narrative.
\<close>

theorem add_implemented_requirements_repeats:
  "requirements_of (OscalSSP_init count_uuid (pop_project [comp_A, comp_C] [''ac-2'']) no_stakeholders)
     = [(''ac-2'', [''This component satisfies a.'', ''Rev 4 narrative for a.'']),
        (''ac-2'', [''This component satisfies a.'', ''Rev 4 narrative for a.''])]
   \<and> requirements_of (OscalSSP_init count_uuid (pop_project [comp_A, comp_B] [''ac-3'', ''ac-2'']) no_stakeholders)
     = [(''ac-2'', [''This component satisfies a.''])]"
  by code_simp

subsection \<open>The plan does not depend on the generated UUIDs\<close>

text \<open>
  Each step of the assembly commutes with a change \<open>f\<close> of the generated UUIDs: running
  it with the generator \<open>f \<circ> gen\<close> gives the result of running it with \<open>gen\<close>, changed
  by \<open>f\<close>.
\<close>

lemma set_roles_loop_uuids:
  "set_roles_loop (f \<circ> gen) entries (roles_uuids f st)
     = map_sum id (roles_uuids f) (set_roles_loop gen entries st)"
proof (induction entries arbitrary: st)
  case Nil
  show ?case by simp
next
  case (Cons entry entries)
  show ?case
  proof (cases "stakeholder_items entry ([], [], rs_properties st)")
    case (Inl e)
    then show ?thesis by (simp add: roles_uuids_def)
  next
    case (Inr r)
    obtain title short_name properties where r: "r = (title, short_name, properties)"
      by (cases r) auto
    let ?role_id = "lower (replace_space_hyphen title)"
    show ?thesis
    proof (cases "title \<noteq> [] \<and> ?role_id \<notin> set (rs_ids st)")
      case True
      let ?st' = "\<lparr>rs_roles = rs_roles st @
                     [\<lparr>r_title = strip title, r_short_name = upper short_name, r_id = ?role_id\<rparr>],
                   rs_users = rs_users st @
                     [\<lparr>u_uuid = gen (rs_fresh st), u_role_ids = [?role_id], u_title = title,
                       u_short_name = short_name, u_props = [properties]\<rparr>],
                   rs_ids = rs_ids st @ [?role_id],
                   rs_properties = properties,
                   rs_fresh = Suc (rs_fresh st)\<rparr>"
      have step: "set_roles_loop gen (entry # entries) st = set_roles_loop gen entries ?st'"
        using Inr r True by (simp add: Let_def)
      have step': "set_roles_loop (f \<circ> gen) (entry # entries) (roles_uuids f st)
                     = set_roles_loop (f \<circ> gen) entries (roles_uuids f ?st')"
        using Inr r True by (simp add: Let_def roles_uuids_def user_uuids_def)
      show ?thesis unfolding step step' by (rule Cons.IH)
    next
      case False
      have step: "set_roles_loop gen (entry # entries) st
                    = set_roles_loop gen entries (st\<lparr>rs_properties := properties\<rparr>)"
        using Inr r False by (auto simp: Let_def)
      have step': "set_roles_loop (f \<circ> gen) (entry # entries) (roles_uuids f st)
                     = set_roles_loop (f \<circ> gen) entries (roles_uuids f (st\<lparr>rs_properties := properties\<rparr>))"
      proof -
        have comm: "roles_uuids f (st\<lparr>rs_properties := properties\<rparr>)
                      = (roles_uuids f st)\<lparr>rs_properties := properties\<rparr>"
          by (cases st) (simp add: roles_uuids_def)
        have "rs_properties (roles_uuids f st) = rs_properties st"
          "rs_ids (roles_uuids f st) = rs_ids st"
          by (simp_all add: roles_uuids_def)
        then show ?thesis
          using Inr r False unfolding comm by (auto simp: Let_def)
      qed
      show ?thesis unfolding step step' by (rule Cons.IH)
    qed
  qed
qed

lemma set_roles_uuids:
  "set_roles (f \<circ> gen) extras fresh = map_sum id (roles_uuids f) (set_roles gen extras fresh)"
proof (cases "stakeholders extras")
  case None
  then show ?thesis by (simp add: set_roles_def)
next
  case (Some entries)
  let ?st = "\<lparr>rs_roles = [], rs_users = [], rs_ids = [], rs_properties = None, rs_fresh = fresh\<rparr>"
  have "roles_uuids f ?st = ?st" by (simp add: roles_uuids_def)
  with set_roles_loop_uuids [of f gen entries ?st] Some show ?thesis
    by (simp add: set_roles_def)
qed

lemma add_components_loop_uuids:
  "add_components_loop (f \<circ> gen) project cs (components_uuids f st)
     = components_uuids f (add_components_loop gen project cs st)"
proof (induction cs arbitrary: st)
  case Nil
  show ?case by simp
next
  case (Cons c cs)
  let ?cpt = "\<lambda>g. (if pc_status c = 1
         then \<lparr>sc_uuid = g (cs_fresh st), sc_title = ''This System'', sc_type = ''this-system'',
               sc_description = p_title project, sc_status = \<lparr>ss_state = ''operational''\<rparr>\<rparr>
         else \<lparr>sc_uuid = g (cs_fresh st), sc_title = pc_title c,
               sc_type = pc_type c, sc_description = pc_description c,
               sc_status = \<lparr>ss_state = ''operational''\<rparr>\<rparr>)"
  let ?st' = "\<lambda>g s. \<lparr>cs_system_implementation = (cs_system_implementation s)
              \<lparr>si_components := si_components (cs_system_implementation s) @ [?cpt g]\<rparr>,
            cs_component_ref = (cs_component_ref s)(pc_title c \<mapsto> sc_uuid (?cpt g)),
            cs_fresh = Suc (cs_fresh s)\<rparr>"
  have step: "add_components_loop gen project (c # cs) st = add_components_loop gen project cs (?st' gen st)"
    by (simp add: Let_def)
  have fresh: "cs_fresh (components_uuids f st) = cs_fresh st"
    by (simp add: components_uuids_def)
  have step': "add_components_loop (f \<circ> gen) project (c # cs) (components_uuids f st)
      = add_components_loop (f \<circ> gen) project cs (?st' (f \<circ> gen) (components_uuids f st))"
    by (simp add: Let_def fresh)
  have eq: "?st' (f \<circ> gen) (components_uuids f st) = components_uuids f (?st' gen st)"
    by (auto simp: components_uuids_def system_implementation_uuids_def component_uuids_def fun_eq_iff)
  show ?case unfolding step step' eq by (rule Cons.IH)
qed

lemma add_components_uuids:
  "add_components (f \<circ> gen) project (map (user_uuids f) users) fresh
     = components_uuids f (add_components gen project users fresh)"
proof -
  let ?st = "\<lparr>cs_system_implementation = \<lparr>si_users = users, si_components = []\<rparr>,
        cs_component_ref = Map.empty, cs_fresh = fresh\<rparr>"
  have "components_uuids f ?st
     = \<lparr>cs_system_implementation = \<lparr>si_users = map (user_uuids f) users, si_components = []\<rparr>,
        cs_component_ref = Map.empty, cs_fresh = fresh\<rparr>"
    by (simp add: components_uuids_def system_implementation_uuids_def fun_eq_iff)
  with add_components_loop_uuids [of f gen project "p_components project" ?st]
  show ?thesis by (simp add: add_components_def)
qed

lemma add_by_component_uuids:
  "requirement_uuids f (add_by_component r b)
     = add_by_component (requirement_uuids f r) (by_component_uuids f b)"
  by (cases r) (simp add: requirement_uuids_def add_by_component_def split: option.splits)

lemma by_component_loop_uuids:
  "by_component_loop (f \<circ> gen) (map_option f \<circ> component_ref) cid addr cs (requirements_uuids f st)
     = map_sum id (requirements_uuids f) (by_component_loop gen component_ref cid addr cs st)"
proof (induction cs arbitrary: st)
  case Nil
  show ?case by simp
next
  case (Cons c cs)
  show ?case
  proof (cases "cid \<in> set (pc_controls c)")
    case False
    with Cons.IH show ?thesis by simp
  next
    case True
    show ?thesis
    proof (cases "component_ref (pc_title c)")
      case None
      with True show ?thesis by simp
    next
      case (Some ref)
      show ?thesis
      proof (cases "get_control_by_id (component_json c) cid")
        case Nil
        with True Some show ?thesis by simp
      next
        case (Cons ctrl others)
        let ?bc = "\<lambda>g. \<lambda>r. \<lparr>bc_uuid = g (rq_fresh st), component_uuid = r,
                                 bc_description = ir_description ctrl\<rparr>"
        let ?st' = "\<lambda>g r s. \<lparr>rq_heap = (rq_heap s)
                          (addr := map_option (\<lambda>requirement. add_by_component requirement (?bc g r))
                             (rq_heap s addr)),
                        rq_refs = rq_refs s @ [addr],
                        rq_next = rq_next s,
                        rq_fresh = Suc (rq_fresh s)\<rparr>"
        have step: "by_component_loop gen component_ref cid addr (c # cs) st
                      = by_component_loop gen component_ref cid addr cs (?st' gen ref st)"
          using True Some Cons by simp
        have fresh: "rq_fresh (requirements_uuids f st) = rq_fresh st"
          by (simp add: requirements_uuids_def)
        have step': "by_component_loop (f \<circ> gen) (map_option f \<circ> component_ref) cid addr (c # cs)
                        (requirements_uuids f st)
                      = by_component_loop (f \<circ> gen) (map_option f \<circ> component_ref) cid addr cs
                          (?st' (f \<circ> gen) (f ref) (requirements_uuids f st))"
          using True Some Cons by (simp add: fresh)
        have bc: "\<lparr>bc_uuid = f (gen (rq_fresh st)), component_uuid = f ref,
                    bc_description = ir_description ctrl\<rparr>
                  = by_component_uuids f (?bc gen ref)"
          by (simp add: by_component_uuids_def)
        have heap: "(rq_heap (requirements_uuids f st))
                          (addr := map_option (\<lambda>requirement. add_by_component requirement (?bc (f \<circ> gen) (f ref)))
                             (rq_heap (requirements_uuids f st) addr))
                    = map_option (requirement_uuids f) \<circ> (rq_heap st)
                          (addr := map_option (\<lambda>requirement. add_by_component requirement (?bc gen ref))
                             (rq_heap st addr))"
        proof
          fix a
          show "((rq_heap (requirements_uuids f st))
                          (addr := map_option (\<lambda>requirement. add_by_component requirement (?bc (f \<circ> gen) (f ref)))
                             (rq_heap (requirements_uuids f st) addr))) a
                    = (map_option (requirement_uuids f) \<circ> (rq_heap st)
                          (addr := map_option (\<lambda>requirement. add_by_component requirement (?bc gen ref))
                             (rq_heap st addr))) a"
            by (cases "rq_heap st addr")
               (simp_all add: requirements_uuids_def bc add_by_component_uuids)
        qed
        have eq: "?st' (f \<circ> gen) (f ref) (requirements_uuids f st) = requirements_uuids f (?st' gen ref st)"
          using heap by (simp add: requirements_uuids_def)
        show ?thesis unfolding step step' eq by (rule Cons.IH)
      qed
    qed
  qed
qed

lemma requirements_loop_uuids:
  "requirements_loop (f \<circ> gen) (map_option f \<circ> component_ref) cs ctls (requirements_uuids f st)
     = map_sum id (requirements_uuids f) (requirements_loop gen component_ref cs ctls st)"
proof (induction ctls arbitrary: st)
  case Nil
  show ?case by simp
next
  case (Cons control ctls)
  let ?new = "\<lambda>g s. \<lparr>rq_heap = (rq_heap s)
                (rq_next s \<mapsto> \<lparr>sir_uuid = g (rq_fresh s),
                                 sir_control_id = pctl_control_id control,
                                 by_components = None\<rparr>),
              rq_refs = rq_refs s,
              rq_next = Suc (rq_next s),
              rq_fresh = Suc (rq_fresh s)\<rparr>"
  have eq: "?new (f \<circ> gen) (requirements_uuids f st) = requirements_uuids f (?new gen st)"
    by (auto simp: requirements_uuids_def requirement_uuids_def fun_eq_iff)
  have nxt: "rq_next (requirements_uuids f st) = rq_next st"
    by (simp add: requirements_uuids_def)
  let ?inner = "by_component_loop gen component_ref (pctl_control_id control) (rq_next st) cs (?new gen st)"
  have "by_component_loop (f \<circ> gen) (map_option f \<circ> component_ref) (pctl_control_id control)
                 (rq_next st) cs (?new (f \<circ> gen) (requirements_uuids f st))
               = map_sum id (requirements_uuids f) ?inner"
    unfolding eq by (rule by_component_loop_uuids)
  then have inner: "by_component_loop (f \<circ> gen) (map_option f \<circ> component_ref) (pctl_control_id control)
                 (rq_next (requirements_uuids f st)) cs (?new (f \<circ> gen) (requirements_uuids f st))
               = map_sum id (requirements_uuids f) ?inner"
    by (simp only: nxt)
  have u1: "requirements_loop gen component_ref cs (control # ctls) st
      = (case ?inner of Inl e \<Rightarrow> Inl e
         | Inr st' \<Rightarrow> requirements_loop gen component_ref cs ctls st')"
    by simp
  have u2: "requirements_loop (f \<circ> gen) (map_option f \<circ> component_ref) cs (control # ctls)
              (requirements_uuids f st)
      = (case by_component_loop (f \<circ> gen) (map_option f \<circ> component_ref) (pctl_control_id control)
                 (rq_next (requirements_uuids f st)) cs (?new (f \<circ> gen) (requirements_uuids f st)) of
           Inl e \<Rightarrow> Inl e
         | Inr st' \<Rightarrow> requirements_loop (f \<circ> gen) (map_option f \<circ> component_ref) cs ctls st')"
    by (simp del: o_apply)
  show ?case
    unfolding u1 u2 inner
    by (cases ?inner) (simp_all add: Cons.IH del: o_apply)
qed

lemma add_implemented_requirements_uuids:
  "add_implemented_requirements (f \<circ> gen) project (map_option f \<circ> component_ref) fresh
     = map_sum id (requirements_uuids f) (add_implemented_requirements gen project component_ref fresh)"
proof -
  let ?st = "\<lparr>rq_heap = Map.empty, rq_refs = [], rq_next = 0, rq_fresh = fresh\<rparr>"
  have "requirements_uuids f ?st = ?st"
    by (simp add: requirements_uuids_def fun_eq_iff)
  with requirements_loop_uuids [of f gen component_ref "p_components project" "p_controls project" ?st]
  show ?thesis by (simp add: add_implemented_requirements_def)
qed

lemma map_filter_map_option:
  "List.map_filter (map_option g \<circ> h) xs = map g (List.map_filter h xs)"
  by (induction xs) (auto simp: List.map_filter_simps split: option.splits)

lemma control_implementations_of_uuids:
  "control_implementations_of (requirements_uuids f st)
     = (control_implementations_of st)
         \<lparr>sci_implemented_requirements :=
            map (requirement_uuids f) (sci_implemented_requirements (control_implementations_of st))\<rparr>"
  by (simp add: control_implementations_of_def requirements_uuids_def map_filter_map_option)

lemma OscalSSP_init_uuids:
  "OscalSSP_init (f \<circ> gen) project extras = map_sum id (self_uuids f) (OscalSSP_init gen project extras)"
proof (cases "set_roles gen extras 0")
  case (Inl e)
  with set_roles_uuids [of f gen extras 0] show ?thesis
    by (simp add: OscalSSP_init_def)
next
  case (Inr roles)
  let ?cs = "add_components gen project (rs_users roles) (rs_fresh roles)"
  have r: "set_roles (f \<circ> gen) extras 0 = Inr (roles_uuids f roles)"
    using set_roles_uuids [of f gen extras 0] Inr by simp
  have rf: "rs_users (roles_uuids f roles) = map (user_uuids f) (rs_users roles)"
    "rs_fresh (roles_uuids f roles) = rs_fresh roles" "rs_roles (roles_uuids f roles) = rs_roles roles"
    by (simp_all add: roles_uuids_def)
  have c: "add_components (f \<circ> gen) project (map (user_uuids f) (rs_users roles)) (rs_fresh roles)
             = components_uuids f ?cs"
    by (rule add_components_uuids)
  have cf: "cs_component_ref (components_uuids f ?cs) = map_option f \<circ> cs_component_ref ?cs"
    "cs_fresh (components_uuids f ?cs) = cs_fresh ?cs"
    "cs_system_implementation (components_uuids f ?cs)
       = system_implementation_uuids f (cs_system_implementation ?cs)"
    by (simp_all add: components_uuids_def)
  have q: "add_implemented_requirements (f \<circ> gen) project (map_option f \<circ> cs_component_ref ?cs) (cs_fresh ?cs)
     = map_sum id (requirements_uuids f)
         (add_implemented_requirements gen project (cs_component_ref ?cs) (cs_fresh ?cs))"
    by (rule add_implemented_requirements_uuids)
  have lhs: "OscalSSP_init (f \<circ> gen) project extras
      = (case add_implemented_requirements (f \<circ> gen) project (map_option f \<circ> cs_component_ref ?cs) (cs_fresh ?cs) of
           Inl e \<Rightarrow> Inl e
         | Inr requirements \<Rightarrow>
             Inr \<lparr>self_project = project, self_extras = extras,
                  self_metadata = (set_metadata project)\<lparr>md_roles := rs_roles roles\<rparr>,
                  self_users = map (user_uuids f) (rs_users roles),
                  self_component_ref = map_option f \<circ> cs_component_ref ?cs,
                  self_system_implementation = system_implementation_uuids f (cs_system_implementation ?cs),
                  self_control_implementations = requirements\<rparr>)"
    unfolding OscalSSP_init_def r by (simp only: sum.case Let_def rf c cf)
  have rhs: "OscalSSP_init gen project extras
      = (case add_implemented_requirements gen project (cs_component_ref ?cs) (cs_fresh ?cs) of
           Inl e \<Rightarrow> Inl e
         | Inr requirements \<Rightarrow>
             Inr \<lparr>self_project = project, self_extras = extras,
                  self_metadata = (set_metadata project)\<lparr>md_roles := rs_roles roles\<rparr>,
                  self_users = rs_users roles,
                  self_component_ref = cs_component_ref ?cs,
                  self_system_implementation = cs_system_implementation ?cs,
                  self_control_implementations = requirements\<rparr>)"
    unfolding OscalSSP_init_def Inr by (simp only: sum.case Let_def)
  show ?thesis
    unfolding lhs rhs q
    by (cases "add_implemented_requirements gen project (cs_component_ref ?cs) (cs_fresh ?cs)")
       (simp_all add: self_uuids_def del: o_apply)
qed

lemma get_ssp_uuids:
  "get_ssp uuid5 (f \<circ> gen) (self_uuids f self) = with_uuids f (get_ssp uuid5 gen self)"
proof -
  have p: "self_project (self_uuids f self) = self_project self"
    "self_metadata (self_uuids f self) = self_metadata self"
    "self_system_implementation (self_uuids f self)
       = system_implementation_uuids f (self_system_implementation self)"
    "self_control_implementations (self_uuids f self)
       = requirements_uuids f (self_control_implementations self)"
    by (simp_all add: self_uuids_def)
  have fr: "rq_fresh (requirements_uuids f (self_control_implementations self))
              = rq_fresh (self_control_implementations self)"
    by (simp add: requirements_uuids_def)
  show ?thesis
    by (simp add: get_ssp_def with_uuids_def Let_def p fr control_implementations_of_uuids
          get_import_profile_def get_system_characteristics_def get_system_information_def
          get_information_type_def get_impact_level_def get_back_matter_def)
qed

lemma export_ssp_uuids:
  "export_ssp uuid5 (f \<circ> gen) project extras
     = map_sum id (with_uuids f) (export_ssp uuid5 gen project extras)"
  by (cases "OscalSSP_init gen project extras")
     (simp_all add: export_ssp_def OscalSSP_init_uuids get_ssp_uuids del: o_apply)

lemma export_ssp_system_id:
  "export_ssp uuid5 gen project extras = Inr ssp \<Longrightarrow>
     map sid_id (system_ids (system_characteristics ssp)) = [uuid5 NAMESPACE_OID (p_title project)]"
proof -
  assume a: "export_ssp uuid5 gen project extras = Inr ssp"
  then obtain self where s: "OscalSSP_init gen project extras = Inr self"
    and g: "ssp = get_ssp uuid5 gen self"
    by (auto simp: export_ssp_def split: sum.splits)
  from s have "self_project self = project"
    by (auto simp: OscalSSP_init_def Let_def split: sum.splits)
  with g show ?thesis
    by (simp add: get_ssp_def get_system_characteristics_def Let_def)
qed

text \<open>
  C7. Two runs of the export over the same project snapshot and the same extras, with
  whatever UUIDs \<open>uuid4()\<close> generates in each, raise the same error or give plans that are
  equal once the freshly generated UUIDs are blanked; the system identifier is the same in
  both, the \<open>uuid5\<close> of the OID namespace and the project title.
\<close>

theorem export_ssp_same_up_to_fresh_uuids:
  "without_uuids (export_ssp uuid5 gen1 project extras)
     = without_uuids (export_ssp uuid5 gen2 project extras)
   \<and> system_id_of (export_ssp uuid5 gen1 project extras)
     = system_id_of (export_ssp uuid5 gen2 project extras)
   \<and> (\<forall>ssp. export_ssp uuid5 gen1 project extras = Inr ssp \<longrightarrow>
         map sid_id (system_ids (system_characteristics ssp))
           = [uuid5 NAMESPACE_OID (p_title project)])"
proof -
  have w: "without_uuids r = map_sum id (with_uuids (\<lambda>u. [])) r" for r
    by (cases r) (simp_all add: without_uuids_def)
  have c: "(\<lambda>u. []) \<circ> gen1 = (\<lambda>u. []) \<circ> gen2" by (simp add: fun_eq_iff)
  have "without_uuids (export_ssp uuid5 gen1 project extras)
          = export_ssp uuid5 ((\<lambda>u. []) \<circ> gen1) project extras"
    unfolding w by (rule export_ssp_uuids [symmetric])
  also have "\<dots> = export_ssp uuid5 ((\<lambda>u. []) \<circ> gen2) project extras"
    by (simp only: c)
  also have "\<dots> = without_uuids (export_ssp uuid5 gen2 project extras)"
    unfolding w by (rule export_ssp_uuids)
  finally have same: "without_uuids (export_ssp uuid5 gen1 project extras)
     = without_uuids (export_ssp uuid5 gen2 project extras)" .
  have sid: "system_id_of (without_uuids r) = system_id_of r" for r
    by (cases r) (simp_all add: without_uuids_def system_id_of_def with_uuids_def)
  have "system_id_of (export_ssp uuid5 gen1 project extras)
     = system_id_of (export_ssp uuid5 gen2 project extras)"
    using same sid by metis
  with same export_ssp_system_id [of uuid5 gen1 project extras] show ?thesis by blast
qed

text \<open>
  Witness for C7: two generators give plans with different UUIDs and the same content.
\<close>

theorem export_ssp_same_up_to_fresh_uuids_witness:
  "(\<exists>ssp. export_ssp name_uuid5 count_uuid (pop_project [comp_own, comp_A, comp_B] [''ac-2'']) one_stakeholder = Inr ssp
      \<and> map sid_id (system_ids (system_characteristics ssp))
           = [name_uuid5 NAMESPACE_OID ''Pretty Ordinary Project''])
   \<and> plan_uuid_of (export_ssp name_uuid5 count_uuid (pop_project [comp_own, comp_A, comp_B] [''ac-2'']) one_stakeholder)
       \<noteq> plan_uuid_of (export_ssp name_uuid5 other_uuid (pop_project [comp_own, comp_A, comp_B] [''ac-2'']) one_stakeholder)
   \<and> without_uuids (export_ssp name_uuid5 count_uuid (pop_project [comp_own, comp_A, comp_B] [''ac-2'']) one_stakeholder)
       = without_uuids (export_ssp name_uuid5 other_uuid (pop_project [comp_own, comp_A, comp_B] [''ac-2'']) one_stakeholder)"
proof -
  let ?p = "pop_project [comp_own, comp_A, comp_B] [''ac-2'']"
  note inst = export_ssp_same_up_to_fresh_uuids [of name_uuid5 count_uuid ?p one_stakeholder other_uuid]
  have "plan_uuid_of (export_ssp name_uuid5 count_uuid ?p one_stakeholder) = ''aaaaaaaaa''"
    by code_simp
  moreover have o: "plan_uuid_of (export_ssp name_uuid5 other_uuid ?p one_stakeholder) = ''bbbbbbbbb''"
    by code_simp
  ultimately have d: "plan_uuid_of (export_ssp name_uuid5 count_uuid ?p one_stakeholder)
       \<noteq> plan_uuid_of (export_ssp name_uuid5 other_uuid ?p one_stakeholder)"
    by simp
  have "plan_uuid_of (export_ssp name_uuid5 count_uuid ?p one_stakeholder) \<noteq> []"
    by code_simp
  then obtain ssp where s: "export_ssp name_uuid5 count_uuid ?p one_stakeholder = Inr ssp"
    by (cases "export_ssp name_uuid5 count_uuid ?p one_stakeholder") (simp_all add: plan_uuid_of_def)
  have t: "p_title ?p = ''Pretty Ordinary Project''" by (simp add: pop_project_def)
  from inst s have "map sid_id (system_ids (system_characteristics ssp))
           = [name_uuid5 NAMESPACE_OID (p_title ?p)]"
    by blast
  with s t have e: "\<exists>ssp. export_ssp name_uuid5 count_uuid ?p one_stakeholder = Inr ssp
      \<and> map sid_id (system_ids (system_characteristics ssp))
           = [name_uuid5 NAMESPACE_OID ''Pretty Ordinary Project'']"
    by simp
  from inst have "without_uuids (export_ssp name_uuid5 count_uuid ?p one_stakeholder)
       = without_uuids (export_ssp name_uuid5 other_uuid ?p one_stakeholder)"
    by blast
  with e d show ?thesis by blast
qed

subsection \<open>Serialization round trip\<close>









lemma case_option_same: "(case v of None \<Rightarrow> None | Some w \<Rightarrow> Some w) = v"
  by (cases v) simp_all


















lemma omit_if_falsy_idem: "omit_if_falsy (omit_if_falsy xs) = omit_if_falsy xs"
  by (cases xs) (simp_all add: omit_if_falsy_def)








lemma normal_idem: "normal (normal c) = normal c"
proof -
  have r: "normal_ImplementedRequirement (normal_ImplementedRequirement r) = normal_ImplementedRequirement r" for r
    by (simp add: normal_ImplementedRequirement_def omit_if_falsy_idem)
  have i: "normal_ControlImplementation (normal_ControlImplementation i) = normal_ControlImplementation i" for i
    by (simp add: normal_ControlImplementation_def r)
  show ?thesis by (simp add: normal_def i)
qed





end
